theory Spec2Isabelle
  imports Main "HOL-Library.Sublist" "HOL-Library.Word"
begin

unbundle bit_operations_syntax

section \<open>Go values and the libraries the code calls\<close>

text \<open>
  A Go function either returns or panics (here: a nil pointer dereference).
\<close>

datatype 'a exec = Panic | Return 'a

text \<open>
  \<^verbatim>\<open>net.IP\<close> and \<^verbatim>\<open>net.IPMask\<close> are byte slices, \<^verbatim>\<open>net.IPNet\<close> is a
  struct of the two.  A compiled \<^verbatim>\<open>*regexp.Regexp\<close> is represented by the
  expression it was compiled from.
\<close>

type_synonym byte = "8 word"

type_synonym IP = "byte list"

record IPNet =
  IP :: IP
  Mask :: "byte list"

datatype Regexp = Compiled string

text \<open>
  The functions of Go's \<^verbatim>\<open>net\<close> and \<^verbatim>\<open>regexp\<close> packages and of the
  cidranger library are not part of the repository; they are parameters of the model.
  \<^item> \<open>ParseIP\<close>: \<^verbatim>\<open>net.ParseIP\<close>, \<open>None\<close> for the nil result;
  \<^item> \<open>ParseCIDR\<close>: \<^verbatim>\<open>net.ParseCIDR\<close>, \<open>None\<close> when it returns an error
    (the network pointer is nil then);
  \<^item> \<open>NetworkContains\<close>: whether an entry inserted into a ranger for the network
    covers the address;
  \<^item> \<open>Compile\<close>: \<^verbatim>\<open>regexp.Compile\<close>, \<open>Inl\<close> the error's text;
  \<^item> \<open>MatchString\<close>, \<open>ReplaceAllString\<close>: the methods of a compiled expression.
\<close>

record extern =
  ParseIP :: "string \<Rightarrow> IP option"
  ParseCIDR :: "string \<Rightarrow> IPNet option"
  NetworkContains :: "IPNet \<Rightarrow> IP \<Rightarrow> bool"
  Compile :: "string \<Rightarrow> string + Regexp"
  MatchString :: "Regexp \<Rightarrow> string \<Rightarrow> bool"
  ReplaceAllString :: "Regexp \<Rightarrow> string \<Rightarrow> string \<Rightarrow> string"

subsection \<open>Strings\<close>

text \<open>
  Modelled from the spec: \<^verbatim>\<open>stringtool.Cat\<close> and \<^verbatim>\<open>stringtool.StrInSlice\<close> are
  not in the sources.  The spec writes the results of \<open>Cat\<close> as plain
  concatenations (the tag \<^verbatim>\<open>ip <ip> not allow\<close>, the appended \<^verbatim>\<open>","+ip\<close>) and
  calls the method check a membership test.
\<close>

definition Cat :: "string list \<Rightarrow> string" where
  "Cat strs = concat strs"

definition StrInSlice :: "string \<Rightarrow> string list \<Rightarrow> bool" where
  "StrInSlice s xs = (s \<in> set xs)"

text \<open>\<^verbatim>\<open>strings.HasPrefix\<close>, \<^verbatim>\<open>strings.Contains\<close> and \<^verbatim>\<open>strings.Count\<close> (of a
  one-character substring).\<close>

definition HasPrefix :: "string \<Rightarrow> string \<Rightarrow> bool" where
  "HasPrefix s pre = prefix pre s"

fun strings_Contains :: "string \<Rightarrow> string \<Rightarrow> bool" where
  "strings_Contains [] substr = (substr = [])"
| "strings_Contains (c # cs) substr = (prefix substr (c # cs) \<or> strings_Contains cs substr)"

definition strings_Count :: "string \<Rightarrow> char \<Rightarrow> nat" where
  "strings_Count s c = length (filter (\<lambda>x. x = c) s)"

section \<open>pkg/util/ipfilter/ipfilter.go\<close>

record ipfilter_Spec =
  BlockByDefault :: bool
  AllowIPs :: "string list"
  BlockIPs :: "string list"

text \<open>
  \<^verbatim>\<open>cidranger.Ranger\<close>: a ranger is represented by the networks inserted into it.
  \<open>Contains\<close> fails on an address that is neither 4 nor 16 bytes long, and otherwise
  tells whether an inserted network covers the address.
\<close>

type_synonym Ranger = "IPNet list"

datatype error = ErrInvalidNetworkNumberInput

definition NewPCTrieRanger :: Ranger where
  "NewPCTrieRanger = []"

definition Insert :: "Ranger \<Rightarrow> IPNet \<Rightarrow> Ranger" where
  "Insert ranger entry = ranger @ [entry]"

definition Contains :: "extern \<Rightarrow> Ranger \<Rightarrow> IP \<Rightarrow> error + bool" where
  "Contains ext ranger ip =
     (if length ip = 4 \<or> length ip = 16
      then Inr (list_ex (\<lambda>n. NetworkContains ext n ip) ranger)
      else Inl ErrInvalidNetworkNumberInput)"

record IPFilter =
  spec :: ipfilter_Spec
  allowRanger :: Ranger
  blockRanger :: Ranger

record IPFilters =
  filters :: "IPFilter list"

definition allOnesIPv4Mask :: "byte list" where
  "allOnesIPv4Mask = [255, 255, 255, 255]"

definition allOnesIPv6Mask :: "byte list" where
  "allOnesIPv6Mask = [255, 255, 255, 255, 255, 255, 255, 255,
                      255, 255, 255, 255, 255, 255, 255, 255]"

text \<open>
  The closure \<^verbatim>\<open>rangerFromIPCIDRs\<close> of \<^verbatim>\<open>New\<close>; the second argument is the ranger
  built so far.  A string that is neither an address nor a CIDR is logged and then
  dereferences the nil network: the function panics.
\<close>

fun rangerFromIPCIDRs :: "extern \<Rightarrow> Ranger \<Rightarrow> string list \<Rightarrow> Ranger exec" where
  "rangerFromIPCIDRs ext ranger [] = Return ranger"
| "rangerFromIPCIDRs ext ranger (ipcidr # rest) =
     (case ParseIP ext ipcidr of
        Some ip \<Rightarrow>
          (let mask = (if strings_Count ipcidr CHR '':'' \<ge> 2
                       then allOnesIPv6Mask else allOnesIPv4Mask)
           in rangerFromIPCIDRs ext (Insert ranger \<lparr>IP = ip, Mask = mask\<rparr>) rest)
      | None \<Rightarrow>
          (case ParseCIDR ext ipcidr of
             None \<Rightarrow> Panic
           | Some ipNet \<Rightarrow> rangerFromIPCIDRs ext (Insert ranger ipNet) rest))"

definition New :: "extern \<Rightarrow> ipfilter_Spec \<Rightarrow> IPFilter exec" where
  "New ext s =
     (case rangerFromIPCIDRs ext NewPCTrieRanger (AllowIPs s) of
        Panic \<Rightarrow> Panic
      | Return allow \<Rightarrow>
          (case rangerFromIPCIDRs ext NewPCTrieRanger (BlockIPs s) of
             Panic \<Rightarrow> Panic
           | Return block \<Rightarrow>
               Return \<lparr>spec = s, allowRanger = allow, blockRanger = block\<rparr>))"

definition IPFilter_Allow :: "extern \<Rightarrow> IPFilter \<Rightarrow> string \<Rightarrow> bool" where
  "IPFilter_Allow ext f ipstr =
     (let defaultResult = \<not> BlockByDefault (spec f) in
      case ParseIP ext ipstr of
        None \<Rightarrow> defaultResult
      | Some ip \<Rightarrow>
          (case Contains ext (allowRanger f) ip of
             Inl err \<Rightarrow> defaultResult
           | Inr allowed \<Rightarrow>
               (case Contains ext (blockRanger f) ip of
                  Inl err \<Rightarrow> defaultResult
                | Inr blocked \<Rightarrow>
                    (if allowed \<and> blocked then defaultResult
                     else if allowed then True
                     else if blocked then False
                     else defaultResult))))"

definition NewIPfilters :: "IPFilter list \<Rightarrow> IPFilters" where
  "NewIPfilters fs = \<lparr>filters = fs\<rparr>"

definition Filters :: "IPFilters \<Rightarrow> IPFilter list" where
  "Filters f = filters f"

definition Append :: "IPFilters \<Rightarrow> IPFilter \<Rightarrow> IPFilters" where
  "Append f filter' = f\<lparr>filters := filters f @ [filter']\<rparr>"

text \<open>The loop of \<^verbatim>\<open>IPFilters.Allow\<close> over the filters.\<close>

fun Allow_loop :: "extern \<Rightarrow> IPFilter list \<Rightarrow> string \<Rightarrow> bool" where
  "Allow_loop ext [] ipstr = True"
| "Allow_loop ext (f # fs) ipstr =
     (if \<not> IPFilter_Allow ext f ipstr then False else Allow_loop ext fs ipstr)"

definition IPFilters_Allow :: "extern \<Rightarrow> IPFilters \<Rightarrow> string \<Rightarrow> bool" where
  "IPFilters_Allow ext f ipstr = Allow_loop ext (filters f) ipstr"

section \<open>The request context\<close>

text \<open>
  \<^verbatim>\<open>httpheader.HTTPHeader\<close> wraps Go's \<^verbatim>\<open>http.Header\<close> (see
  \<^verbatim>\<open>httpheader.New(stdw.Header())\<close> in pkg/context/httpresponse.go): a map from a
  header's name to the list of its values.  \<open>Get\<close> reads the first value of a name
  (the empty string when there is none), \<open>Add\<close> appends a value to the name's list and
  \<open>Set\<close> replaces the list by one value.  Names are taken in their canonical form.
\<close>

type_synonym HTTPHeader = "string \<rightharpoonup> string list"

definition Get :: "HTTPHeader \<Rightarrow> string \<Rightarrow> string" where
  "Get h key = (case h key of None \<Rightarrow> [] | Some [] \<Rightarrow> [] | Some (v # vs) \<Rightarrow> v)"

definition Add :: "HTTPHeader \<Rightarrow> string \<Rightarrow> string \<Rightarrow> HTTPHeader" where
  "Add h key v = h(key \<mapsto> (case h key of None \<Rightarrow> [] | Some vs \<Rightarrow> vs) @ [v])"

definition Set :: "HTTPHeader \<Rightarrow> string \<Rightarrow> string \<Rightarrow> HTTPHeader" where
  "Set h key v = h(key \<mapsto> [v])"

definition KeyXForwardedFor :: string where
  "KeyXForwardedFor = ''X-Forwarded-For''"

text \<open>
  What the mux reads and writes of a request and of its context.  The real IP is the
  collaborator's result, which the mux takes as it is; the status code of a fresh
  response is 200 (\<^verbatim>\<open>newHTTPResponse\<close>).  Spans, statistics and the top-N sample of
  \<^verbatim>\<open>OnFinish\<close> are not modelled.
\<close>

record Request =
  Host :: string
  Method :: string
  Path :: string
  Header :: HTTPHeader
  RealIP :: string

record HTTPContext =
  Request :: Request
  StatusCode :: int
  Tags :: "string list"

definition context_New :: "Request \<Rightarrow> HTTPContext" where
  "context_New stdr = \<lparr>Request = stdr, StatusCode = 200, Tags = []\<rparr>"

definition AddTag :: "HTTPContext \<Rightarrow> string \<Rightarrow> HTTPContext" where
  "AddTag ctx tag = ctx\<lparr>Tags := Tags ctx @ [tag]\<rparr>"

definition SetStatusCode :: "HTTPContext \<Rightarrow> int \<Rightarrow> HTTPContext" where
  "SetStatusCode ctx code = ctx\<lparr>StatusCode := code\<rparr>"

definition SetPath :: "HTTPContext \<Rightarrow> string \<Rightarrow> HTTPContext" where
  "SetPath ctx p = ctx\<lparr>Request := (Request ctx)\<lparr>Request.Path := p\<rparr>\<rparr>"

definition SetHeader :: "HTTPContext \<Rightarrow> HTTPHeader \<Rightarrow> HTTPContext" where
  "SetHeader ctx h = ctx\<lparr>Request := (Request ctx)\<lparr>Header := h\<rparr>\<rparr>"

definition IPFilter_AllowHTTPContext :: "extern \<Rightarrow> IPFilter \<Rightarrow> HTTPContext \<Rightarrow> bool" where
  "IPFilter_AllowHTTPContext ext f ctx = IPFilter_Allow ext f (RealIP (Request ctx))"

definition IPFilters_AllowHTTPContext :: "extern \<Rightarrow> IPFilters \<Rightarrow> HTTPContext \<Rightarrow> bool" where
  "IPFilters_AllowHTTPContext ext f ctx = IPFilters_Allow ext f (RealIP (Request ctx))"

section \<open>The mux: specs, compiled rules and the route cache\<close>

text \<open>
  Modelled from the spec: the declarations of \<^verbatim>\<open>Spec\<close>, \<^verbatim>\<open>Rule\<close>, \<^verbatim>\<open>Path\<close> and
  \<^verbatim>\<open>Header\<close> are not in the sources; the fields are those the mux reads and the
  spec's data model lists.  \<^verbatim>\<open>Header.initHeaderRoute\<close> is not in the sources
  either: the spec speaks of the header rule's compiled expression, so it is taken to
  compile \<open>Regexp\<close> into \<open>headerRE\<close>, which stays nil when that fails.
\<close>

record Header =
  Key :: string
  Values :: "string list"
  Regexp :: string
  headerRE :: "Regexp option"

record Path =
  IPFilter :: "ipfilter_Spec option"
  Path :: string
  PathPrefix :: string
  PathRegexp :: string
  RewriteTarget :: string
  Methods :: "string list"
  Backend :: string
  Headers :: "Header list"

record Rule =
  IPFilter :: "ipfilter_Spec option"
  Host :: string
  HostRegexp :: string
  Paths :: "Path list"

record Spec =
  IPFilter :: "ipfilter_Spec option"
  CacheSize :: nat
  XForwardedFor :: bool
  Rules :: "Rule list"

definition initHeaderRoute :: "extern \<Rightarrow> Header \<Rightarrow> Header" where
  "initHeaderRoute ext h =
     h\<lparr>headerRE := (case Compile ext (Regexp h) of Inl err \<Rightarrow> None | Inr re \<Rightarrow> Some re)\<rparr>"

record muxPath =
  ipFilter :: "IPFilter option"
  ipFilterChain :: "IPFilters option"
  path :: string
  pathPrefix :: string
  pathRegexp :: string
  pathRE :: "Regexp option"
  methods :: "string list"
  rewriteTarget :: string
  backend :: string
  headers :: "Header list"

record muxRule =
  ipFilter :: "IPFilter option"
  ipFilterChain :: "IPFilters option"
  host :: string
  hostRegexp :: string
  hostRE :: "Regexp option"
  paths :: "muxPath list"

text \<open>
  Modelled from the spec: \<^verbatim>\<open>cacheItem\<close> and \<^verbatim>\<open>cache\<close> (\<^verbatim>\<open>newCache\<close>, \<^verbatim>\<open>get\<close>,
  \<^verbatim>\<open>put\<close>) are not in the sources.  The item has the fields the mux reads and
  writes.  The cache is the spec's fixed-capacity mapping from fingerprints to items:
  \<open>put\<close> replaces the key's entry and keeps at most \<open>capacity\<close> entries, the most
  recently put first.
\<close>

record cacheItem =
  ipFilterChan :: "IPFilters option"
  notFound :: bool
  methodNotAllowed :: bool
  path :: "muxPath option"
  cached :: bool

record cache =
  capacity :: nat
  entries :: "(string \<times> cacheItem) list"

definition newCache :: "nat \<Rightarrow> cache" where
  "newCache sz = \<lparr>capacity = sz, entries = []\<rparr>"

definition cache_get :: "cache \<Rightarrow> string \<Rightarrow> cacheItem option" where
  "cache_get c key = map_of (entries c) key"

definition cache_put :: "cache \<Rightarrow> string \<Rightarrow> cacheItem \<Rightarrow> cache" where
  "cache_put c key ci =
     c\<lparr>entries := take (capacity c) ((key, ci) # filter (\<lambda>e. fst e \<noteq> key) (entries c))\<rparr>"

record muxRules =
  spec :: Spec
  cache :: "cache option"
  ipFilter :: "IPFilter option"
  ipFilterChan :: "IPFilters option"
  rules :: "muxRule list"

text \<open>The handler registry: \<^verbatim>\<open>MuxMapper.Get\<close> of a backend's name; a handler acts on
  the context.\<close>

type_synonym Handler = "HTTPContext \<Rightarrow> HTTPContext"

type_synonym MuxMapper = "string \<Rightarrow> Handler option"

record mux =
  rules :: muxRules
  muxMapper :: MuxMapper

section \<open>The mux: building a snapshot\<close>

text \<open>A line of the error log: \<^verbatim>\<open>logger.Errorf("BUG: compile %s failed: %v", expr, err)\<close>.\<close>

definition compile_failed :: "string \<Rightarrow> string \<Rightarrow> string" where
  "compile_failed expr err = ''BUG: compile '' @ expr @ '' failed: '' @ err"

definition newIPFilterChain ::
    "extern \<Rightarrow> IPFilters option \<Rightarrow> ipfilter_Spec option \<Rightarrow> IPFilters option exec" where
  "newIPFilterChain ext parentIPFilters childSpec =
     (let ipFilters = (case parentIPFilters of
                         Some parent \<Rightarrow> NewIPfilters (Filters parent)
                       | None \<Rightarrow> NewIPfilters [])
      in case (case childSpec of
                 Some s \<Rightarrow> (case New ext s of
                              Panic \<Rightarrow> Panic
                            | Return f \<Rightarrow> Return (Append ipFilters f))
               | None \<Rightarrow> Return ipFilters) of
           Panic \<Rightarrow> Panic
         | Return ipFilters' \<Rightarrow>
             (if length (Filters ipFilters') = 0 then Return None
              else Return (Some ipFilters')))"

definition newIPFilter :: "extern \<Rightarrow> ipfilter_Spec option \<Rightarrow> IPFilter option exec" where
  "newIPFilter ext s =
     (case s of
        None \<Rightarrow> Return None
      | Some s' \<Rightarrow> (case New ext s' of Panic \<Rightarrow> Panic | Return f \<Rightarrow> Return (Some f)))"

text \<open>The builders return the compiled value and the lines they logged.\<close>

definition newMuxRule ::
    "extern \<Rightarrow> IPFilters option \<Rightarrow> Rule \<Rightarrow> muxPath list \<Rightarrow> (muxRule \<times> string list) exec" where
  "newMuxRule ext parentIPFilters rule paths' =
     (let (hostRE', logged) =
            (if HostRegexp rule \<noteq> []
             then (case Compile ext (HostRegexp rule) of
                     Inl err \<Rightarrow> (None, [compile_failed (HostRegexp rule) err])
                   | Inr re \<Rightarrow> (Some re, []))
             else (None, []))
      in case newIPFilter ext (Rule.IPFilter rule) of
           Panic \<Rightarrow> Panic
         | Return f \<Rightarrow>
             (case newIPFilterChain ext parentIPFilters (Rule.IPFilter rule) of
                Panic \<Rightarrow> Panic
              | Return chain \<Rightarrow>
                  Return (\<lparr>muxRule.ipFilter = f, muxRule.ipFilterChain = chain,
                           host = Rule.Host rule, hostRegexp = HostRegexp rule,
                           hostRE = hostRE', paths = paths'\<rparr>, logged)))"

definition newMuxPath ::
    "extern \<Rightarrow> IPFilters option \<Rightarrow> Path \<Rightarrow> (muxPath \<times> string list) exec" where
  "newMuxPath ext parentIPFilters p =
     (let (pathRE', logged) =
            (if PathRegexp p \<noteq> []
             then (case Compile ext (PathRegexp p) of
                     Inl err \<Rightarrow> (None, [compile_failed (PathRegexp p) err])
                   | Inr re \<Rightarrow> (Some re, []))
             else (None, []));
          headers' = map (initHeaderRoute ext) (Headers p)
      in case newIPFilter ext (Path.IPFilter p) of
           Panic \<Rightarrow> Panic
         | Return f \<Rightarrow>
             (case newIPFilterChain ext parentIPFilters (Path.IPFilter p) of
                Panic \<Rightarrow> Panic
              | Return chain \<Rightarrow>
                  Return (\<lparr>muxPath.ipFilter = f, muxPath.ipFilterChain = chain,
                           muxPath.path = Path.Path p, pathPrefix = PathPrefix p,
                           pathRegexp = PathRegexp p, pathRE = pathRE',
                           methods = Methods p, rewriteTarget = RewriteTarget p,
                           backend = Backend p, headers = headers'\<rparr>, logged)))"

text \<open>The loops of \<^verbatim>\<open>reloadRules\<close>: the inner one over a rule's paths, the body of
  the outer one for one rule, and the outer one over the rules.\<close>

fun reloadRules_paths ::
    "extern \<Rightarrow> IPFilters option \<Rightarrow> Path list \<Rightarrow> (muxPath list \<times> string list) exec" where
  "reloadRules_paths ext ruleIPFilterChain [] = Return ([], [])"
| "reloadRules_paths ext ruleIPFilterChain (p # ps) =
     (case newMuxPath ext ruleIPFilterChain p of
        Panic \<Rightarrow> Panic
      | Return (mp, logged) \<Rightarrow>
          (case reloadRules_paths ext ruleIPFilterChain ps of
             Panic \<Rightarrow> Panic
           | Return (mps, logged') \<Rightarrow> Return (mp # mps, logged @ logged')))"

definition reloadRules_rule ::
    "extern \<Rightarrow> IPFilters option \<Rightarrow> Rule \<Rightarrow> (muxRule \<times> string list) exec" where
  "reloadRules_rule ext rootChain specRule =
     (case newIPFilterChain ext rootChain (Rule.IPFilter specRule) of
        Panic \<Rightarrow> Panic
      | Return ruleIPFilterChain \<Rightarrow>
          (case reloadRules_paths ext ruleIPFilterChain (Paths specRule) of
             Panic \<Rightarrow> Panic
           | Return (paths', logged) \<Rightarrow>
               (case newMuxRule ext rootChain specRule paths' of
                  Panic \<Rightarrow> Panic
                | Return (r, logged') \<Rightarrow> Return (r, logged @ logged'))))"

fun reloadRules_rules ::
    "extern \<Rightarrow> IPFilters option \<Rightarrow> Rule list \<Rightarrow> (muxRule list \<times> string list) exec" where
  "reloadRules_rules ext rootChain [] = Return ([], [])"
| "reloadRules_rules ext rootChain (specRule # rest) =
     (case reloadRules_rule ext rootChain specRule of
        Panic \<Rightarrow> Panic
      | Return (r, logged) \<Rightarrow>
          (case reloadRules_rules ext rootChain rest of
             Panic \<Rightarrow> Panic
           | Return (rs, logged') \<Rightarrow> Return (r # rs, logged @ logged')))"

text \<open>
  \<^verbatim>\<open>reloadRules\<close> without the tracer: the new snapshot and the lines logged.  The
  unused local \<^verbatim>\<open>ipFilters\<close> repeats \<^verbatim>\<open>ipfilter.New(spec.IPFilter)\<close>, which has
  returned twice before at that point.
\<close>

definition reloadRules :: "extern \<Rightarrow> Spec \<Rightarrow> (muxRules \<times> string list) exec" where
  "reloadRules ext s =
     (case newIPFilter ext (Spec.IPFilter s) of
        Panic \<Rightarrow> Panic
      | Return f \<Rightarrow>
          (case newIPFilterChain ext None (Spec.IPFilter s) of
             Panic \<Rightarrow> Panic
           | Return chain \<Rightarrow>
               (case reloadRules_rules ext chain (Rules s) of
                  Panic \<Rightarrow> Panic
                | Return (rs, logged) \<Rightarrow>
                    Return (\<lparr>muxRules.spec = s,
                             cache = (if CacheSize s > 0 then Some (newCache (CacheSize s))
                                      else None),
                             muxRules.ipFilter = f, muxRules.ipFilterChan = chain,
                             muxRules.rules = rs\<rparr>, logged))))"

section \<open>The mux: matching\<close>

definition muxRules_pass :: "extern \<Rightarrow> muxRules \<Rightarrow> HTTPContext \<Rightarrow> bool" where
  "muxRules_pass ext mr ctx =
     (case muxRules.ipFilter mr of
        None \<Rightarrow> True
      | Some f \<Rightarrow> IPFilter_AllowHTTPContext ext f ctx)"

definition fingerprint :: "HTTPContext \<Rightarrow> string" where
  "fingerprint ctx =
     (let r = Request ctx in Cat [Request.Host r, Method r, Request.Path r])"

definition getCacheItem :: "muxRules \<Rightarrow> HTTPContext \<Rightarrow> cacheItem option" where
  "getCacheItem mr ctx =
     (case cache mr of
        None \<Rightarrow> None
      | Some c \<Rightarrow> cache_get c (fingerprint ctx))"

text \<open>\<^verbatim>\<open>putCacheItem\<close> marks the item as cached and stores it: it returns the snapshot
  with its cache, and the item, as they are afterwards.\<close>

definition putCacheItem :: "muxRules \<Rightarrow> HTTPContext \<Rightarrow> cacheItem \<Rightarrow> muxRules \<times> cacheItem" where
  "putCacheItem mr ctx ci =
     (case cache mr of
        None \<Rightarrow> (mr, ci)
      | Some c \<Rightarrow>
          (if cached ci then (mr, ci)
           else (let ci' = ci\<lparr>cached := True\<rparr>
                 in (mr\<lparr>cache := Some (cache_put c (fingerprint ctx) ci')\<rparr>, ci'))))"

definition muxRule_pass :: "extern \<Rightarrow> muxRule \<Rightarrow> HTTPContext \<Rightarrow> bool" where
  "muxRule_pass ext mr ctx =
     (case muxRule.ipFilter mr of
        None \<Rightarrow> True
      | Some f \<Rightarrow> IPFilter_AllowHTTPContext ext f ctx)"

definition match :: "extern \<Rightarrow> muxRule \<Rightarrow> HTTPContext \<Rightarrow> bool" where
  "match ext mr ctx =
     (let r = Request ctx in
      if host mr = [] \<and> hostRE mr = None then True
      else if host mr \<noteq> [] \<and> host mr = Request.Host r then True
      else (case hostRE mr of
              Some re \<Rightarrow> (if MatchString ext re (Request.Host r) then True else False)
            | None \<Rightarrow> False))"

definition muxPath_pass :: "extern \<Rightarrow> muxPath \<Rightarrow> HTTPContext \<Rightarrow> bool" where
  "muxPath_pass ext mp ctx =
     (case muxPath.ipFilter mp of
        None \<Rightarrow> True
      | Some f \<Rightarrow> IPFilter_AllowHTTPContext ext f ctx)"

definition matchPath :: "extern \<Rightarrow> muxPath \<Rightarrow> HTTPContext \<Rightarrow> bool" where
  "matchPath ext mp ctx =
     (let r = Request ctx in
      if muxPath.path mp = [] \<and> pathPrefix mp = [] \<and> pathRE mp = None then True
      else if muxPath.path mp \<noteq> [] \<and> muxPath.path mp = Request.Path r then True
      else if pathPrefix mp \<noteq> [] \<and> HasPrefix (Request.Path r) (pathPrefix mp) then True
      else (case pathRE mp of
              Some re \<Rightarrow> MatchString ext re (Request.Path r)
            | None \<Rightarrow> False))"

definition matchMethod :: "muxPath \<Rightarrow> HTTPContext \<Rightarrow> bool" where
  "matchMethod mp ctx =
     (if length (methods mp) = 0 then True
      else StrInSlice (Method (Request ctx)) (methods mp))"

text \<open>
  The loop of \<^verbatim>\<open>matchHeaders\<close> over the header rules of the path \<open>mp\<close>:
  \<open>Return (Some ci)\<close> is \<^verbatim>\<open>(ci, true)\<close>, \<open>Return None\<close> is \<^verbatim>\<open>(nil, false)\<close>.
  A rule with an expression and no compiled one calls \<^verbatim>\<open>MatchString\<close> on nil.
\<close>

fun matchHeaders_loop ::
    "extern \<Rightarrow> muxPath \<Rightarrow> Header list \<Rightarrow> HTTPContext \<Rightarrow> cacheItem option exec" where
  "matchHeaders_loop ext mp [] ctx = Return None"
| "matchHeaders_loop ext mp (h # hs) ctx =
     (let v = Get (Header (Request ctx)) (Key h) in
      if StrInSlice v (Values h)
      then Return (Some \<lparr>cacheItem.ipFilterChan = muxPath.ipFilterChain mp, notFound = False,
                          methodNotAllowed = False, cacheItem.path = Some mp, cached = False\<rparr>)
      else if Regexp h \<noteq> []
      then (case headerRE h of
              None \<Rightarrow> Panic
            | Some re \<Rightarrow>
                (if MatchString ext re v
                 then Return (Some \<lparr>cacheItem.ipFilterChan = muxPath.ipFilterChain mp,
                                    notFound = False, methodNotAllowed = False,
                                    cacheItem.path = Some mp, cached = False\<rparr>)
                 else matchHeaders_loop ext mp hs ctx))
      else matchHeaders_loop ext mp hs ctx)"

definition matchHeaders :: "extern \<Rightarrow> muxPath \<Rightarrow> HTTPContext \<Rightarrow> cacheItem option exec" where
  "matchHeaders ext mp ctx = matchHeaders_loop ext mp (headers mp) ctx"

section \<open>The mux: dispatching a request\<close>

definition handleIPNotAllow :: "HTTPContext \<Rightarrow> HTTPContext" where
  "handleIPNotAllow ctx =
     SetStatusCode (AddTag ctx (Cat [''ip '', RealIP (Request ctx), '' not allow''])) 403"

definition appendXForwardedFor :: "HTTPContext \<Rightarrow> HTTPContext" where
  "appendXForwardedFor ctx =
     (let v = Get (Header (Request ctx)) KeyXForwardedFor;
          ip = RealIP (Request ctx)
      in if v = []
         then SetHeader ctx (Add (Header (Request ctx)) KeyXForwardedFor ip)
         else if \<not> strings_Contains v ip
         then SetHeader ctx (Set (Header (Request ctx)) KeyXForwardedFor (Cat [v, '','', ip]))
         else ctx)"

definition handleRequestWithCache ::
    "extern \<Rightarrow> mux \<Rightarrow> muxRules \<Rightarrow> HTTPContext \<Rightarrow> cacheItem \<Rightarrow> HTTPContext" where
  "handleRequestWithCache ext m rules' ctx ci =
     (if (case cacheItem.ipFilterChan ci of
            Some chain \<Rightarrow> \<not> IPFilters_AllowHTTPContext ext chain ctx
          | None \<Rightarrow> False)
      then handleIPNotAllow ctx
      else if notFound ci then SetStatusCode ctx 404
      else if methodNotAllowed ci then SetStatusCode ctx 405
      else (case cacheItem.path ci of
              None \<Rightarrow> ctx
            | Some p \<Rightarrow>
                (case muxMapper m (backend p) of
                   None \<Rightarrow>
                     SetStatusCode (AddTag ctx (Cat [''backend '', backend p, '' not found''])) 503
                 | Some handler \<Rightarrow>
                     (let ctx1 = (if XForwardedFor (muxRules.spec rules')
                                  then appendXForwardedFor ctx else ctx);
                          ctx2 = (case pathRE p of
                                    Some re \<Rightarrow>
                                      (if rewriteTarget p \<noteq> []
                                       then SetPath ctx1
                                              (ReplaceAllString ext re
                                                 (Request.Path (Request ctx1)) (rewriteTarget p))
                                       else ctx1)
                                  | None \<Rightarrow> ctx1)
                      in handler ctx2))))"

text \<open>\<^verbatim>\<open>newMux\<close>: the first snapshot has the zero \<^verbatim>\<open>Spec\<close> and nothing else.\<close>

definition newMux :: "MuxMapper \<Rightarrow> mux" where
  "newMux mapper =
     \<lparr>mux.rules =
        \<lparr>muxRules.spec = \<lparr>Spec.IPFilter = None, CacheSize = 0, XForwardedFor = False,
                          Rules = []\<rparr>,
         cache = None, muxRules.ipFilter = None, muxRules.ipFilterChan = None,
         muxRules.rules = []\<rparr>,
      muxMapper = mapper\<rparr>"

text \<open>
  The two loops of \<^verbatim>\<open>ServeHTTP\<close> only read the request until one of their
  \<^verbatim>\<open>return\<close> statements is reached; \<open>walk\<close> names the statement that ends them:
  \<^item> \<open>IPNotAllow\<close>: a rule's or a path's own filter denies (\<^verbatim>\<open>handleIPNotAllow\<close>);
  \<^item> \<open>MethodNotAllowed p\<close>: \<open>matchPath\<close> succeeds on \<open>p\<close> and \<open>matchMethod\<close> fails;
  \<^item> \<open>HeaderMatched ci\<close>: \<open>matchHeaders\<close> returns \<open>ci\<close>;
  \<^item> \<open>PathMatched p\<close>: \<open>matchHeaders\<close> returns nothing, the item of \<open>p\<close> is built;
  \<^item> \<open>Exhausted\<close>: the loop ends without a \<^verbatim>\<open>return\<close>;
  \<^item> \<open>Panicked\<close>: \<open>matchHeaders\<close> panics.
\<close>

datatype walk =
    IPNotAllow
  | MethodNotAllowed muxPath
  | HeaderMatched cacheItem
  | PathMatched muxPath
  | Exhausted
  | Panicked

fun ServeHTTP_paths :: "extern \<Rightarrow> muxPath list \<Rightarrow> HTTPContext \<Rightarrow> walk" where
  "ServeHTTP_paths ext [] ctx = Exhausted"
| "ServeHTTP_paths ext (p # ps) ctx =
     (if \<not> matchPath ext p ctx then ServeHTTP_paths ext ps ctx
      else if \<not> matchMethod p ctx then MethodNotAllowed p
      else if \<not> muxPath_pass ext p ctx then IPNotAllow
      else (case matchHeaders ext p ctx of
              Panic \<Rightarrow> Panicked
            | Return (Some ci) \<Rightarrow> HeaderMatched ci
            | Return None \<Rightarrow> PathMatched p))"

fun ServeHTTP_hosts :: "extern \<Rightarrow> muxRule list \<Rightarrow> HTTPContext \<Rightarrow> walk" where
  "ServeHTTP_hosts ext [] ctx = Exhausted"
| "ServeHTTP_hosts ext (h # hs) ctx =
     (if \<not> match ext h ctx then ServeHTTP_hosts ext hs ctx
      else if \<not> muxRule_pass ext h ctx then IPNotAllow
      else (case ServeHTTP_paths ext (paths h) ctx of
              Exhausted \<Rightarrow> ServeHTTP_hosts ext hs ctx
            | w \<Rightarrow> w))"

text \<open>
  \<^verbatim>\<open>ServeHTTP\<close> on the request \<open>stdr\<close>: the mux afterwards (only the cache of its
  snapshot can have changed) and the context as it is when the function returns.
\<close>

definition ServeHTTP :: "extern \<Rightarrow> mux \<Rightarrow> Request \<Rightarrow> (mux \<times> HTTPContext) exec" where
  "ServeHTTP ext m stdr =
     (let rules' = mux.rules m;
          ctx = context_New stdr
      in case getCacheItem rules' ctx of
           Some ci \<Rightarrow> Return (m, handleRequestWithCache ext m rules' ctx ci)
         | None \<Rightarrow>
             (if \<not> muxRules_pass ext rules' ctx then Return (m, handleIPNotAllow ctx)
              else (case ServeHTTP_hosts ext (muxRules.rules rules') ctx of
                      Panicked \<Rightarrow> Panic
                    | IPNotAllow \<Rightarrow> Return (m, handleIPNotAllow ctx)
                    | MethodNotAllowed p \<Rightarrow>
                        (let (rules'', ci) =
                               putCacheItem rules' ctx
                                 \<lparr>cacheItem.ipFilterChan = muxPath.ipFilterChain p,
                                  notFound = False, methodNotAllowed = True,
                                  cacheItem.path = None, cached = False\<rparr>
                         in Return (m\<lparr>mux.rules := rules''\<rparr>,
                                    handleRequestWithCache ext m rules'' ctx ci))
                    | HeaderMatched ci \<Rightarrow>
                        Return (m, handleRequestWithCache ext m rules' ctx ci)
                    | PathMatched p \<Rightarrow>
                        (let (rules'', ci) =
                               putCacheItem rules' ctx
                                 \<lparr>cacheItem.ipFilterChan = muxPath.ipFilterChain p,
                                  notFound = False, methodNotAllowed = False,
                                  cacheItem.path = Some p, cached = False\<rparr>
                         in Return (m\<lparr>mux.rules := rules''\<rparr>,
                                    handleRequestWithCache ext m rules'' ctx ci))
                    | Exhausted \<Rightarrow>
                        (let (rules'', ci) =
                               putCacheItem rules' ctx
                                 \<lparr>cacheItem.ipFilterChan = muxRules.ipFilterChan rules',
                                  notFound = True, methodNotAllowed = False,
                                  cacheItem.path = None, cached = False\<rparr>
                         in Return (m\<lparr>mux.rules := rules''\<rparr>,
                                    handleRequestWithCache ext m rules'' ctx ci)))))"

section \<open>The redirector\<close>

text \<open>
  Modelled from the spec: the redirector itself is not in the sources, only its test
  (\<^verbatim>\<open>TestRedirector\<close>) is.  Validation at initialization, in the spec's words: the
  match part is compared, case-sensitively, with the three valid values and anything
  else is replaced with \<^verbatim>\<open>"uri"\<close>; a status code that is not in the allowed set is
  replaced with 301.
\<close>

record redirector_Spec =
  Match :: string
  MatchPart :: string
  Replacement :: string
  StatusCode :: int

definition Init :: "redirector_Spec \<Rightarrow> redirector_Spec" where
  "Init s =
     (let s1 = (if MatchPart s = ''uri'' \<or> MatchPart s = ''full'' \<or> MatchPart s = ''path''
                then s else s\<lparr>MatchPart := ''uri''\<rparr>)
      in if redirector_Spec.StatusCode s1 \<in> {301, 302, 303, 304, 307, 308}
         then s1 else s1\<lparr>redirector_Spec.StatusCode := 301\<rparr>)"

text \<open>\<^verbatim>\<open>getSpec\<close> of the test.\<close>

definition getSpec :: "string \<Rightarrow> string \<Rightarrow> string \<Rightarrow> int \<Rightarrow> redirector_Spec" where
  "getSpec match' part replace' code =
     \<lparr>Match = match', MatchPart = part, Replacement = replace',
      redirector_Spec.StatusCode = code\<rparr>"

section \<open>Sample values\<close>

text \<open>
  An instance of the external functions, for running the model: it knows a few IPv4
  addresses and networks (an address in the 16-byte form \<^verbatim>\<open>net.ParseIP\<close> returns, a
  network compared byte by byte under its mask, as \<^verbatim>\<open>net.IPNet.Contains\<close> does),
  refuses the expression \<^verbatim>\<open>(\<close>, which has no closing parenthesis, and matches
  \<^verbatim>\<open>.*\<close> and expressions without metacharacters.
\<close>

definition IPv4 :: "byte \<Rightarrow> byte \<Rightarrow> byte \<Rightarrow> byte \<Rightarrow> IP" where
  "IPv4 a b c d = replicate 10 0 @ [255, 255, a, b, c, d]"

definition To4 :: "IP \<Rightarrow> IP" where
  "To4 ip = (if length ip = 16 \<and> take 12 ip = replicate 10 0 @ [255, 255]
             then drop 12 ip else ip)"

definition IPNet_Contains :: "IPNet \<Rightarrow> IP \<Rightarrow> bool" where
  "IPNet_Contains n ip =
     (let x = To4 ip; nn = To4 (IP n) in
      length x = length nn \<and> length (Mask n) = length nn \<and>
      map (\<lambda>(a, m). a AND m) (zip nn (Mask n)) = map (\<lambda>(a, m). a AND m) (zip x (Mask n)))"

definition sample_ext :: extern where
  "sample_ext =
     \<lparr>ParseIP = map_of [(''10.0.0.1'', IPv4 10 0 0 1), (''10.1.0.1'', IPv4 10 1 0 1),
                        (''192.168.1.1'', IPv4 192 168 1 1), (''8.8.8.8'', IPv4 8 8 8 8)],
      ParseCIDR = map_of [(''10.0.0.0/8'', \<lparr>IP = [10, 0, 0, 0], Mask = [255, 0, 0, 0]\<rparr>),
                          (''10.1.0.0/16'', \<lparr>IP = [10, 1, 0, 0], Mask = [255, 255, 0, 0]\<rparr>)],
      NetworkContains = IPNet_Contains,
      Compile = (\<lambda>e. if e = ''('' then Inl ''error parsing regexp: missing closing )''
                     else Inr (Compiled e)),
      MatchString = (\<lambda>re s. case re of Compiled e \<Rightarrow> e = ''.*'' \<or> strings_Contains s e),
      ReplaceAllString = (\<lambda>re s repl. case re of Compiled e \<Rightarrow> if e = ''.*'' then repl else s)\<rparr>"

text \<open>Two filters: the first allows 10.0.0.0/8 and blocks 10.1.0.0/16 and 192.168.1.1,
  blocking by default; the second blocks 192.168.1.1 and allows by default.\<close>

definition sample_filter :: IPFilter where
  "sample_filter =
     \<lparr>IPFilter.spec = \<lparr>BlockByDefault = True, AllowIPs = [''10.0.0.0/8''],
                        BlockIPs = [''10.1.0.0/16'', ''192.168.1.1'']\<rparr>,
      allowRanger = [\<lparr>IP = [10, 0, 0, 0], Mask = [255, 0, 0, 0]\<rparr>],
      blockRanger = [\<lparr>IP = [10, 1, 0, 0], Mask = [255, 255, 0, 0]\<rparr>,
                     \<lparr>IP = IPv4 192 168 1 1, Mask = allOnesIPv4Mask\<rparr>]\<rparr>"

definition sample_filter2 :: IPFilter where
  "sample_filter2 =
     \<lparr>IPFilter.spec = \<lparr>BlockByDefault = False, AllowIPs = [],
                        BlockIPs = [''192.168.1.1'']\<rparr>,
      allowRanger = [],
      blockRanger = [\<lparr>IP = IPv4 192 168 1 1, Mask = allOnesIPv4Mask\<rparr>]\<rparr>"

text \<open>A registry of two backends whose handlers tag the context, and the mux that
  \<^verbatim>\<open>newMux\<close> and then \<^verbatim>\<open>reloadRules\<close> make of a spec.\<close>

definition handled_by :: "string \<Rightarrow> Handler" where
  "handled_by name ctx = AddTag ctx (''handled by '' @ name)"

definition sample_mapper :: MuxMapper where
  "sample_mapper = map_of [(''B1'', handled_by ''B1''), (''B2'', handled_by ''B2'')]"

definition sample_mux :: "Spec \<Rightarrow> mux" where
  "sample_mux s =
     (case reloadRules sample_ext s of
        Return (r, logged) \<Rightarrow> (newMux sample_mapper)\<lparr>mux.rules := r\<rparr>
      | Panic \<Rightarrow> newMux sample_mapper)"

definition any_path :: Path where
  "any_path = \<lparr>Path.IPFilter = None, Path.Path = [], PathPrefix = [], PathRegexp = [],
                RewriteTarget = [], Methods = [], Backend = [], Headers = []\<rparr>"

definition any_rule :: Rule where
  "any_rule = \<lparr>Rule.IPFilter = None, Rule.Host = [], HostRegexp = [], Paths = []\<rparr>"

definition sample_spec :: "Rule list \<Rightarrow> Spec" where
  "sample_spec rs = \<lparr>Spec.IPFilter = None, CacheSize = 10, XForwardedFor = False, Rules = rs\<rparr>"

definition sample_request :: "string \<Rightarrow> string \<Rightarrow> string \<Rightarrow> Request" where
  "sample_request h m p =
     \<lparr>Request.Host = h, Method = m, Request.Path = p, Header = Map.empty,
      RealIP = ''10.0.0.1''\<rparr>"

text \<open>Host a.com with two paths under /api: the first has a header rule (X-Version
  is v2) and backend B1, the second has none and backend B2.\<close>

definition spec_headers :: Spec where
  "spec_headers =
     sample_spec
       [any_rule\<lparr>Rule.Host := ''a.com'',
          Paths := [any_path\<lparr>PathPrefix := ''/api'', Backend := ''B1'',
                      Headers := [\<lparr>Key = ''X-Version'', Values = [''v2''], Regexp = [],
                                   headerRE = None\<rparr>]\<rparr>,
                    any_path\<lparr>PathPrefix := ''/api'', Backend := ''B2''\<rparr>]\<rparr>]"

text \<open>Host a.com with the path /a and backend B1, then any host with the path /b and
  backend B2.\<close>

definition spec_hosts :: Spec where
  "spec_hosts =
     sample_spec
       [any_rule\<lparr>Rule.Host := ''a.com'',
          Paths := [any_path\<lparr>Path.Path := ''/a'', Backend := ''B1''\<rparr>]\<rparr>,
        any_rule\<lparr>Paths := [any_path\<lparr>Path.Path := ''/b'', Backend := ''B2''\<rparr>]\<rparr>]"

text \<open>Host a.com with one path under /api for GET only, behind a filter of its own
  that allows 10.0.0.0/8 and blocks by default; backend B1.\<close>

definition spec_methods :: Spec where
  "spec_methods =
     sample_spec
       [any_rule\<lparr>Rule.Host := ''a.com'',
          Paths := [any_path\<lparr>PathPrefix := ''/api'', Methods := [''GET''], Backend := ''B1'',
                      Path.IPFilter := Some \<lparr>BlockByDefault = True,
                                              AllowIPs = [''10.0.0.0/8''],
                                              BlockIPs = []\<rparr>\<rparr>]\<rparr>]"

text \<open>A rule whose only host matcher is the expression \<^verbatim>\<open>(\<close>, with one path whose
  only matcher is the same expression and backend B1; then host a.com with the path /a
  and backend B2.  The expression does not compile.\<close>

definition spec_broken :: Spec where
  "spec_broken =
     sample_spec
       [any_rule\<lparr>HostRegexp := ''('',
          Paths := [any_path\<lparr>PathRegexp := ''('', Backend := ''B1''\<rparr>]\<rparr>,
        any_rule\<lparr>Rule.Host := ''a.com'',
          Paths := [any_path\<lparr>Path.Path := ''/a'', Backend := ''B2''\<rparr>]\<rparr>]"

text \<open>The compiled paths and rules of the four specs, as \<^verbatim>\<open>reloadRules\<close> builds
  them (lemmas \<open>sample_mux_headers\<close>, \<open>sample_mux_hosts\<close>, \<open>sample_mux_methods\<close> and
  \<open>sample_mux_broken\<close> below).\<close>

definition no_muxPath :: muxPath where
  "no_muxPath =
     \<lparr>muxPath.ipFilter = None, muxPath.ipFilterChain = None, muxPath.path = [],
      pathPrefix = [], pathRegexp = [], pathRE = None, methods = [], rewriteTarget = [],
      backend = [], headers = []\<rparr>"

definition no_muxRule :: muxRule where
  "no_muxRule =
     \<lparr>muxRule.ipFilter = None, muxRule.ipFilterChain = None, host = [], hostRegexp = [],
      hostRE = None, paths = []\<rparr>"

definition path_v2 :: muxPath where
  "path_v2 =
     no_muxPath\<lparr>pathPrefix := ''/api'', backend := ''B1'',
       headers := [\<lparr>Key = ''X-Version'', Values = [''v2''], Regexp = [],
                    headerRE = Some (Compiled [])\<rparr>]\<rparr>"

definition path_api :: muxPath where
  "path_api = no_muxPath\<lparr>pathPrefix := ''/api'', backend := ''B2''\<rparr>"

definition path_a :: muxPath where
  "path_a = no_muxPath\<lparr>muxPath.path := ''/a'', backend := ''B1''\<rparr>"

definition path_b :: muxPath where
  "path_b = no_muxPath\<lparr>muxPath.path := ''/b'', backend := ''B2''\<rparr>"

definition path_broken :: muxPath where
  "path_broken = no_muxPath\<lparr>pathRegexp := ''('', backend := ''B1''\<rparr>"

definition path_a2 :: muxPath where
  "path_a2 = no_muxPath\<lparr>muxPath.path := ''/a'', backend := ''B2''\<rparr>"

definition filter_10 :: IPFilter where
  "filter_10 =
     \<lparr>IPFilter.spec = \<lparr>BlockByDefault = True, AllowIPs = [''10.0.0.0/8''], BlockIPs = []\<rparr>,
      allowRanger = [\<lparr>IP = [10, 0, 0, 0], Mask = [255, 0, 0, 0]\<rparr>],
      blockRanger = []\<rparr>"

definition path_get :: muxPath where
  "path_get =
     no_muxPath\<lparr>muxPath.ipFilter := Some filter_10,
       muxPath.ipFilterChain := Some \<lparr>filters = [filter_10]\<rparr>,
       pathPrefix := ''/api'', methods := [''GET''], backend := ''B1''\<rparr>"

definition sample_rules :: "Spec \<Rightarrow> muxRule list \<Rightarrow> muxRules" where
  "sample_rules s rs =
     \<lparr>muxRules.spec = s, cache = Some \<lparr>capacity = 10, entries = []\<rparr>,
      muxRules.ipFilter = None, muxRules.ipFilterChan = None, muxRules.rules = rs\<rparr>"

section \<open>Properties\<close>

subsection \<open>The sample values, evaluated\<close>

lemma sample_ParseIP [simp]:
  "ParseIP sample_ext ''10.0.0.1'' = Some (IPv4 10 0 0 1)"
  "ParseIP sample_ext ''10.1.0.1'' = Some (IPv4 10 1 0 1)"
  "ParseIP sample_ext ''192.168.1.1'' = Some (IPv4 192 168 1 1)"
  "ParseIP sample_ext ''8.8.8.8'' = Some (IPv4 8 8 8 8)"
  "ParseIP sample_ext ''bogus'' = None"
  by (simp_all add: sample_ext_def)

lemma sample_NetworkContains [simp]: "NetworkContains sample_ext = IPNet_Contains"
  by (simp add: sample_ext_def)

lemma length_IPv4 [simp]: "length (IPv4 a b c d) = 16"
  by (simp add: IPv4_def)

lemma To4_IPv4 [simp]: "To4 (IPv4 a b c d) = [a, b, c, d]"
  by (simp add: IPv4_def To4_def)

lemma To4_short [simp]: "To4 [a, b, c, d] = [a, b, c, d]"
  by (simp add: To4_def)

lemma sample_Contains:
  "Contains sample_ext (allowRanger sample_filter) (IPv4 10 0 0 1) = Inr True"
  "Contains sample_ext (blockRanger sample_filter) (IPv4 10 0 0 1) = Inr False"
  "Contains sample_ext (allowRanger sample_filter) (IPv4 10 1 0 1) = Inr True"
  "Contains sample_ext (blockRanger sample_filter) (IPv4 10 1 0 1) = Inr True"
  "Contains sample_ext (allowRanger sample_filter) (IPv4 192 168 1 1) = Inr False"
  "Contains sample_ext (blockRanger sample_filter) (IPv4 192 168 1 1) = Inr True"
  "Contains sample_ext (allowRanger sample_filter) (IPv4 8 8 8 8) = Inr False"
  "Contains sample_ext (blockRanger sample_filter) (IPv4 8 8 8 8) = Inr False"
  by (simp_all add: sample_filter_def Contains_def IPNet_Contains_def allOnesIPv4Mask_def)

lemma sample_filter_Allow:
  "IPFilter_Allow sample_ext sample_filter ''10.0.0.1''"
  "\<not> IPFilter_Allow sample_ext sample_filter ''10.1.0.1''"
  "\<not> IPFilter_Allow sample_ext sample_filter ''192.168.1.1''"
  "\<not> IPFilter_Allow sample_ext sample_filter ''8.8.8.8''"
  "\<not> IPFilter_Allow sample_ext sample_filter ''bogus''"
  by (simp_all add: IPFilter_Allow_def sample_Contains) (simp_all add: sample_filter_def)

lemma sample_filter2_Allow:
  "IPFilter_Allow sample_ext sample_filter2 ''10.0.0.1''"
  "\<not> IPFilter_Allow sample_ext sample_filter2 ''192.168.1.1''"
  "IPFilter_Allow sample_ext sample_filter2 ''bogus''"
  by (simp_all add: IPFilter_Allow_def sample_filter2_def Contains_def IPNet_Contains_def
        allOnesIPv4Mask_def)

subsection \<open>The IP filter\<close>

lemma IPFilter_Allow_invalid:
  "ParseIP ext s = None \<Longrightarrow> IPFilter_Allow ext F s = (\<not> BlockByDefault (IPFilter.spec F))"
  by (simp add: IPFilter_Allow_def)

lemma IPFilter_Allow_empty:
  assumes "allowRanger F = []" "blockRanger F = []"
  shows "IPFilter_Allow ext F s = (\<not> BlockByDefault (IPFilter.spec F))"
proof (cases "ParseIP ext s")
  case None
  then show ?thesis by (rule IPFilter_Allow_invalid)
next
  case (Some ip)
  show ?thesis
  proof (cases "length ip = 4 \<or> length ip = 16")
    case True
    then have "Contains ext (allowRanger F) ip = Inr False"
      and "Contains ext (blockRanger F) ip = Inr False"
      using assms by (simp_all add: Contains_def)
    then show ?thesis using Some by (simp add: IPFilter_Allow_def)
  next
    case False
    then have "Contains ext [] ip = Inl ErrInvalidNetworkNumberInput"
      by (simp add: Contains_def)
    with Some assms show ?thesis by (simp add: IPFilter_Allow_def)
  qed
qed

lemma New_empty:
  "AllowIPs sp = [] \<Longrightarrow> BlockIPs sp = [] \<Longrightarrow>
   New ext sp = Return \<lparr>IPFilter.spec = sp, allowRanger = [], blockRanger = []\<rparr>"
  by (simp add: New_def NewPCTrieRanger_def)

text \<open>
  Claim C4.  \<open>F.Allow(s)\<close> follows the decision table with the default result
  \<open>\<not> BlockByDefault\<close>: the default when \<open>s\<close> is not a valid IP (\<open>ParseIP\<close> returns
  nil), the default when the address is in the allow and in the block ranges, true when
  it is only in the allow ranges, false when it is only in the block ranges, and the
  default when it is in neither.  A filter made by \<open>New\<close> from a spec with empty allow
  and block lists returns \<open>\<not> BlockByDefault\<close> for every input: false for every input
  when it blocks by default, true for every input when it does not.
\<close>

theorem IPFilter_Allow_decision_table:
  "(ParseIP ext s = None \<longrightarrow> IPFilter_Allow ext F s = (\<not> BlockByDefault (IPFilter.spec F)))
   \<and> (ParseIP ext s = Some ip \<and> Contains ext (allowRanger F) ip = Inr True
        \<and> Contains ext (blockRanger F) ip = Inr True
      \<longrightarrow> IPFilter_Allow ext F s = (\<not> BlockByDefault (IPFilter.spec F)))
   \<and> (ParseIP ext s = Some ip \<and> Contains ext (allowRanger F) ip = Inr True
        \<and> Contains ext (blockRanger F) ip = Inr False
      \<longrightarrow> IPFilter_Allow ext F s = True)
   \<and> (ParseIP ext s = Some ip \<and> Contains ext (allowRanger F) ip = Inr False
        \<and> Contains ext (blockRanger F) ip = Inr True
      \<longrightarrow> IPFilter_Allow ext F s = False)
   \<and> (ParseIP ext s = Some ip \<and> Contains ext (allowRanger F) ip = Inr False
        \<and> Contains ext (blockRanger F) ip = Inr False
      \<longrightarrow> IPFilter_Allow ext F s = (\<not> BlockByDefault (IPFilter.spec F)))
   \<and> (AllowIPs sp = [] \<and> BlockIPs sp = []
      \<longrightarrow> (\<exists>E. New ext sp = Return E \<and> IPFilter_Allow ext E s = (\<not> BlockByDefault sp)))"
proof (intro conjI impI)
  assume "AllowIPs sp = [] \<and> BlockIPs sp = []"
  then have n: "New ext sp = Return \<lparr>IPFilter.spec = sp, allowRanger = [], blockRanger = []\<rparr>"
    by (simp add: New_empty)
  have "IPFilter_Allow ext \<lparr>IPFilter.spec = sp, allowRanger = [], blockRanger = []\<rparr> s
        = (\<not> BlockByDefault sp)"
    by (simp add: IPFilter_Allow_empty)
  with n show "\<exists>E. New ext sp = Return E \<and> IPFilter_Allow ext E s = (\<not> BlockByDefault sp)"
    by blast
qed (simp_all add: IPFilter_Allow_def)

theorem IPFilter_Allow_decision_table_witness:
  "\<not> IPFilter_Allow sample_ext sample_filter ''bogus''
   \<and> \<not> IPFilter_Allow sample_ext sample_filter ''10.1.0.1''
   \<and> IPFilter_Allow sample_ext sample_filter ''10.0.0.1''
   \<and> \<not> IPFilter_Allow sample_ext sample_filter ''192.168.1.1''
   \<and> \<not> IPFilter_Allow sample_ext sample_filter ''8.8.8.8''
   \<and> (\<exists>E. New sample_ext \<lparr>BlockByDefault = False, AllowIPs = [], BlockIPs = []\<rparr> = Return E
          \<and> IPFilter_Allow sample_ext E ''192.168.1.1'')"
proof -
  note table = IPFilter_Allow_decision_table
                 [where ext = sample_ext and F = sample_filter
                    and sp = "\<lparr>BlockByDefault = False, AllowIPs = [], BlockIPs = []\<rparr>"]
  have d: "BlockByDefault (IPFilter.spec sample_filter)"
    by (simp add: sample_filter_def)
  have "\<not> IPFilter_Allow sample_ext sample_filter ''bogus''"
    using table [where s = "''bogus''"] d by simp
  moreover have "\<not> IPFilter_Allow sample_ext sample_filter ''10.1.0.1''"
    using table [where s = "''10.1.0.1''" and ip = "IPv4 10 1 0 1"] d
    by (simp add: sample_Contains)
  moreover have "IPFilter_Allow sample_ext sample_filter ''10.0.0.1''"
    using table [where s = "''10.0.0.1''" and ip = "IPv4 10 0 0 1"]
    by (simp add: sample_Contains)
  moreover have "\<not> IPFilter_Allow sample_ext sample_filter ''192.168.1.1''"
    using table [where s = "''192.168.1.1''" and ip = "IPv4 192 168 1 1"]
    by (simp add: sample_Contains)
  moreover have "\<not> IPFilter_Allow sample_ext sample_filter ''8.8.8.8''"
    using table [where s = "''8.8.8.8''" and ip = "IPv4 8 8 8 8"] d
    by (simp add: sample_Contains)
  moreover have "\<exists>E. New sample_ext \<lparr>BlockByDefault = False, AllowIPs = [], BlockIPs = []\<rparr>
                        = Return E \<and> IPFilter_Allow sample_ext E ''192.168.1.1''"
    using table [where s = "''192.168.1.1''"] by simp
  ultimately show ?thesis by blast
qed

subsection \<open>The IP filter chain\<close>

lemma Allow_loop_iff: "Allow_loop ext fs s \<longleftrightarrow> (\<forall>f\<in>set fs. IPFilter_Allow ext f s)"
  by (induction fs) auto

text \<open>
  Claim C5.  For every chain \<open>C\<close> and every input \<open>I\<close>, \<open>C.Allow(I)\<close> is true if and
  only if every filter of \<open>C.filters\<close> allows \<open>I\<close>; the chain with zero filters allows
  every input.
\<close>

theorem IPFilters_Allow_conjunction:
  "(IPFilters_Allow ext C I \<longleftrightarrow> (\<forall>f \<in> set (filters C). IPFilter_Allow ext f I))
   \<and> IPFilters_Allow ext (NewIPfilters []) I"
  by (simp add: IPFilters_Allow_def Allow_loop_iff NewIPfilters_def)

theorem IPFilters_Allow_conjunction_witness:
  "IPFilters_Allow sample_ext \<lparr>filters = [sample_filter, sample_filter2]\<rparr> ''10.0.0.1''
   \<and> \<not> IPFilters_Allow sample_ext \<lparr>filters = [sample_filter, sample_filter2]\<rparr> ''bogus''
   \<and> IPFilters_Allow sample_ext \<lparr>filters = []\<rparr> ''bogus''"
  using IPFilters_Allow_conjunction
          [of sample_ext "\<lparr>filters = [sample_filter, sample_filter2]\<rparr>" "''10.0.0.1''"]
    IPFilters_Allow_conjunction
          [of sample_ext "\<lparr>filters = [sample_filter, sample_filter2]\<rparr>" "''bogus''"]
    IPFilters_Allow_conjunction [of sample_ext "\<lparr>filters = []\<rparr>" "''bogus''"]
  by (simp add: sample_filter_Allow sample_filter2_Allow)

subsection \<open>The mux: sample snapshots, evaluated\<close>

lemmas build_defs = reloadRules_def reloadRules_rule_def newMuxPath_def newMuxRule_def
  newIPFilter_def newIPFilterChain_def NewIPfilters_def Filters_def Append_def
  initHeaderRoute_def newCache_def New_def NewPCTrieRanger_def Insert_def strings_Count_def

lemma sample_Compile [simp]:
  "Compile sample_ext [] = Inr (Compiled [])"
  "Compile sample_ext ''('' = Inl ''error parsing regexp: missing closing )''"
  "Compile sample_ext ''.*'' = Inr (Compiled ''.*'')"
  by (simp_all add: sample_ext_def)

lemma sample_ParseCIDR [simp]:
  "ParseIP sample_ext ''10.0.0.0/8'' = None"
  "ParseCIDR sample_ext ''10.0.0.0/8'' = Some \<lparr>IP = [10, 0, 0, 0], Mask = [255, 0, 0, 0]\<rparr>"
  by (simp_all add: sample_ext_def)

lemma sample_mux_headers:
  "sample_mux spec_headers =
     \<lparr>mux.rules = sample_rules spec_headers [no_muxRule\<lparr>host := ''a.com'', paths := [path_v2, path_api]\<rparr>],
      muxMapper = sample_mapper\<rparr>"
  by (simp add: sample_mux_def spec_headers_def sample_spec_def any_rule_def any_path_def
        build_defs newMux_def sample_rules_def no_muxRule_def no_muxPath_def path_v2_def path_api_def)

lemma sample_mux_hosts:
  "sample_mux spec_hosts =
     \<lparr>mux.rules = sample_rules spec_hosts
        [no_muxRule\<lparr>host := ''a.com'', paths := [path_a]\<rparr>, no_muxRule\<lparr>paths := [path_b]\<rparr>],
      muxMapper = sample_mapper\<rparr>"
  by (simp add: sample_mux_def spec_hosts_def sample_spec_def any_rule_def any_path_def
        build_defs newMux_def sample_rules_def no_muxRule_def no_muxPath_def path_a_def path_b_def)

lemma sample_mux_methods:
  "sample_mux spec_methods =
     \<lparr>mux.rules = sample_rules spec_methods [no_muxRule\<lparr>host := ''a.com'', paths := [path_get]\<rparr>],
      muxMapper = sample_mapper\<rparr>"
  by (simp add: sample_mux_def spec_methods_def sample_spec_def any_rule_def any_path_def
        build_defs newMux_def sample_rules_def no_muxRule_def no_muxPath_def path_get_def filter_10_def)

lemma filter_10_Allow:
  "IPFilter_Allow sample_ext filter_10 ''10.0.0.1''"
  "\<not> IPFilter_Allow sample_ext filter_10 ''192.168.1.1''"
  by (simp_all add: IPFilter_Allow_def filter_10_def Contains_def IPNet_Contains_def)

lemmas route_defs = ServeHTTP_def getCacheItem_def cache_get_def context_New_def
  sample_request_def fingerprint_def Cat_def muxRules_pass_def match_def muxRule_pass_def
  muxPath_pass_def matchPath_def HasPrefix_def matchMethod_def StrInSlice_def
  matchHeaders_def Get_def putCacheItem_def cache_put_def handleRequestWithCache_def
  IPFilters_AllowHTTPContext_def IPFilter_AllowHTTPContext_def IPFilters_Allow_def
  handleIPNotAllow_def AddTag_def SetStatusCode_def Let_def

lemmas sample_defs = sample_rules_def no_muxRule_def no_muxPath_def path_v2_def path_api_def
  path_a_def path_b_def path_get_def sample_mapper_def handled_by_def

subsection \<open>The mux: the walk over rules and paths\<close>

lemma ServeHTTP_paths_skip:
  "\<forall>q\<in>set ps1. \<not> matchPath ext q ctx \<Longrightarrow>
   ServeHTTP_paths ext (ps1 @ ps) ctx = ServeHTTP_paths ext ps ctx"
  by (induction ps1) simp_all

lemma ServeHTTP_paths_Exhausted:
  "ServeHTTP_paths ext ps ctx = Exhausted \<longleftrightarrow> (\<forall>q\<in>set ps. \<not> matchPath ext q ctx)"
  by (induction ps) (auto split: exec.splits option.splits)

lemma ServeHTTP_hosts_skip:
  "\<forall>x\<in>set hs1. \<not> match ext x ctx \<or>
      (muxRule_pass ext x ctx \<and> (\<forall>q\<in>set (paths x). \<not> matchPath ext q ctx)) \<Longrightarrow>
   ServeHTTP_hosts ext (hs1 @ hs) ctx = ServeHTTP_hosts ext hs ctx"
proof (induction hs1)
  case Nil
  show ?case by simp
next
  case (Cons x hs1)
  then have rest: "ServeHTTP_hosts ext (hs1 @ hs) ctx = ServeHTTP_hosts ext hs ctx"
    by simp
  from Cons.prems have "\<not> match ext x ctx \<or>
      (muxRule_pass ext x ctx \<and> ServeHTTP_paths ext (paths x) ctx = Exhausted)"
    by (simp add: ServeHTTP_paths_Exhausted)
  then show ?case using rest by auto
qed

lemma ServeHTTP_hosts_at:
  assumes "match ext h ctx" "muxRule_pass ext h ctx"
    and "ServeHTTP_paths ext (paths h) ctx = w" "w \<noteq> Exhausted"
  shows "ServeHTTP_hosts ext (h # hs) ctx = w"
  using assms by (cases w) simp_all

lemma ServeHTTP_hosts_reaches:
  assumes "\<forall>x\<in>set hs1. \<not> match ext x ctx \<or>
      (muxRule_pass ext x ctx \<and> (\<forall>q\<in>set (paths x). \<not> matchPath ext q ctx))"
    and "match ext h ctx" "muxRule_pass ext h ctx"
    and "paths h = ps1 @ p # ps2" "\<forall>q\<in>set ps1. \<not> matchPath ext q ctx"
    and "ServeHTTP_paths ext [p] ctx = w" "w \<noteq> Exhausted"
  shows "ServeHTTP_hosts ext (hs1 @ h # hs2) ctx = w"
proof -
  have "matchPath ext p ctx"
    using assms(6,7) by (auto split: if_splits)
  then have "ServeHTTP_paths ext (p # ps2) ctx = ServeHTTP_paths ext [p] ctx"
    by simp
  then have pw: "ServeHTTP_paths ext (paths h) ctx = w"
    using assms(4,5,6) by (simp add: ServeHTTP_paths_skip)
  have "ServeHTTP_hosts ext (h # hs2) ctx = w"
    by (rule ServeHTTP_hosts_at [OF assms(2,3) pw assms(7)])
  then show ?thesis using assms(1) by (simp add: ServeHTTP_hosts_skip)
qed

lemma cache_get_put:
  "0 < capacity c \<Longrightarrow> cache_get (cache_put c key ci) key = Some ci"
  by (cases "capacity c") (simp_all add: cache_get_def cache_put_def)

lemma getCacheItem_putCacheItem:
  assumes "cache mr = Some c" "0 < capacity c" "\<not> cached ci"
  shows "getCacheItem (fst (putCacheItem mr ctx ci)) ctx = Some (ci\<lparr>cached := True\<rparr>)"
  using assms by (simp add: getCacheItem_def putCacheItem_def Let_def cache_get_put)

lemma handleRequestWithCache_methodNotAllowed:
  "methodNotAllowed ci \<Longrightarrow> \<not> notFound ci \<Longrightarrow>
   HTTPContext.StatusCode (handleRequestWithCache ext m mr ctx ci) =
     (if (case cacheItem.ipFilterChan ci of Some chain \<Rightarrow> IPFilters_AllowHTTPContext ext chain ctx
          | None \<Rightarrow> True) then 405 else 403)"
  by (simp add: handleRequestWithCache_def handleIPNotAllow_def SetStatusCode_def AddTag_def split: option.splits)

lemma handleRequestWithCache_cong:
  "muxMapper m' = muxMapper m \<Longrightarrow> muxRules.spec mr' = muxRules.spec mr \<Longrightarrow>
   cacheItem.ipFilterChan ci' = cacheItem.ipFilterChan ci \<Longrightarrow> notFound ci' = notFound ci \<Longrightarrow>
   methodNotAllowed ci' = methodNotAllowed ci \<Longrightarrow> cacheItem.path ci' = cacheItem.path ci \<Longrightarrow>
   handleRequestWithCache ext m' mr' ctx ci' = handleRequestWithCache ext m mr ctx ci"
  unfolding handleRequestWithCache_def by (simp cong: option.case_cong if_cong)

lemma putCacheItem_spec [simp]:
  "muxRules.spec (fst (putCacheItem mr ctx ci)) = muxRules.spec mr"
  by (simp add: putCacheItem_def Let_def split: option.splits)

lemma putCacheItem_item [simp]:
  "cacheItem.ipFilterChan (snd (putCacheItem mr ctx ci)) = cacheItem.ipFilterChan ci"
  "notFound (snd (putCacheItem mr ctx ci)) = notFound ci"
  "methodNotAllowed (snd (putCacheItem mr ctx ci)) = methodNotAllowed ci"
  "cacheItem.path (snd (putCacheItem mr ctx ci)) = cacheItem.path ci"
  by (simp_all add: putCacheItem_def Let_def split: option.splits)

lemma putCacheItem_cache:
  "\<not> cached ci \<Longrightarrow>
   cache (fst (putCacheItem mr ctx ci)) =
     (case cache mr of None \<Rightarrow> None
      | Some c \<Rightarrow> Some (cache_put c (fingerprint ctx) (ci\<lparr>cached := True\<rparr>)))"
  by (simp add: putCacheItem_def Let_def split: option.splits)

lemma handleRequestWithCache_putCacheItem [simp]:
  "handleRequestWithCache ext m (fst (putCacheItem mr ctx ci)) ctx (snd (putCacheItem mr ctx ci))
   = handleRequestWithCache ext m mr ctx ci"
  by (rule handleRequestWithCache_cong) simp_all

text \<open>What ServeHTTP does once the walk has ended, in one equation per way of ending.\<close>

lemma ServeHTTP_after_walk:
  assumes "ctx = context_New r"
    and "getCacheItem (mux.rules m) ctx = None"
    and "muxRules_pass ext (mux.rules m) ctx"
  shows "ServeHTTP ext m r =
     (case ServeHTTP_hosts ext (muxRules.rules (mux.rules m)) ctx of
        Panicked \<Rightarrow> Panic
      | IPNotAllow \<Rightarrow> Return (m, handleIPNotAllow ctx)
      | HeaderMatched ci \<Rightarrow> Return (m, handleRequestWithCache ext m (mux.rules m) ctx ci)
      | MethodNotAllowed p \<Rightarrow>
          (let ci = \<lparr>cacheItem.ipFilterChan = muxPath.ipFilterChain p, notFound = False,
                     methodNotAllowed = True, cacheItem.path = None, cached = False\<rparr>
           in Return (m\<lparr>mux.rules := fst (putCacheItem (mux.rules m) ctx ci)\<rparr>,
                      handleRequestWithCache ext m (mux.rules m) ctx ci))
      | PathMatched p \<Rightarrow>
          (let ci = \<lparr>cacheItem.ipFilterChan = muxPath.ipFilterChain p, notFound = False,
                     methodNotAllowed = False, cacheItem.path = Some p, cached = False\<rparr>
           in Return (m\<lparr>mux.rules := fst (putCacheItem (mux.rules m) ctx ci)\<rparr>,
                      handleRequestWithCache ext m (mux.rules m) ctx ci))
      | Exhausted \<Rightarrow>
          (let ci = \<lparr>cacheItem.ipFilterChan = muxRules.ipFilterChan (mux.rules m),
                     notFound = True, methodNotAllowed = False, cacheItem.path = None,
                     cached = False\<rparr>
           in Return (m\<lparr>mux.rules := fst (putCacheItem (mux.rules m) ctx ci)\<rparr>,
                      handleRequestWithCache ext m (mux.rules m) ctx ci)))"
  using assms(2,3) unfolding assms(1)
  by (simp add: ServeHTTP_def Let_def split_beta split: walk.splits)


lemma matchHeaders_loop_miss:
  "\<forall>h\<in>set hs. \<not> StrInSlice (Get (Header (Request ctx)) (Key h)) (Values h) \<and>
      (Regexp h \<noteq> [] \<longrightarrow>
         (\<exists>re. headerRE h = Some re \<and> \<not> MatchString ext re (Get (Header (Request ctx)) (Key h)))) \<Longrightarrow>
   matchHeaders_loop ext mp hs ctx = Return None"
  by (induction hs) (auto simp add: Let_def)

lemma ServeHTTP_hosts_drop:
  assumes "match ext h ctx" "muxRule_pass ext h ctx" "\<forall>q\<in>set (paths h). \<not> matchPath ext q ctx"
  shows "ServeHTTP_hosts ext (hs1 @ h # hs2) ctx = ServeHTTP_hosts ext (hs1 @ hs2) ctx"
proof (induction hs1)
  case Nil
  have "ServeHTTP_paths ext (paths h) ctx = Exhausted"
    using assms(3) by (simp add: ServeHTTP_paths_Exhausted)
  then show ?case using assms(1,2) by simp
next
  case (Cons x hs1)
  then show ?case by (simp split: walk.splits)
qed

lemma ServeHTTP_hosts_Exhausted:
  "\<forall>x\<in>set hs. \<not> match ext x ctx \<or>
      (muxRule_pass ext x ctx \<and> (\<forall>q\<in>set (paths x). \<not> matchPath ext q ctx)) \<Longrightarrow>
   ServeHTTP_hosts ext hs ctx = Exhausted"
  using ServeHTTP_hosts_skip [of hs ext ctx "[]"] by simp

lemma handleRequestWithCache_notFound:
  "notFound ci \<Longrightarrow>
   HTTPContext.StatusCode (handleRequestWithCache ext m mr ctx ci) =
     (if (case cacheItem.ipFilterChan ci of Some chain \<Rightarrow> IPFilters_AllowHTTPContext ext chain ctx
          | None \<Rightarrow> True) then 404 else 403)"
  by (simp add: handleRequestWithCache_def handleIPNotAllow_def SetStatusCode_def AddTag_def
        split: option.splits)

lemma sample_mux_rules [simp]:
  "muxRules.rules (sample_rules s rs) = rs"
  "cache (sample_rules s rs) = Some \<lparr>capacity = 10, entries = []\<rparr>"
  "muxRules.ipFilter (sample_rules s rs) = None"
  "muxRules.ipFilterChan (sample_rules s rs) = None"
  "muxRules.spec (sample_rules s rs) = s"
  by (simp_all add: sample_rules_def)

lemma sample_XForwardedFor [simp]:
  "\<not> XForwardedFor spec_headers" "\<not> XForwardedFor spec_hosts" "\<not> XForwardedFor spec_methods"
  by (simp_all add: spec_headers_def spec_hosts_def spec_methods_def sample_spec_def)

subsection \<open>Method mismatch\<close>

text \<open>
  Claim C7, as amended.  When the walk reaches a path whose \<open>matchPath\<close> succeeds and
  the request's method is not in the path's non-empty \<open>Methods\<close> list (cache miss, the
  root filter passes, every earlier rule is passed over, the rule matches and passes,
  no earlier path of the rule matches), the dispatcher records a \<open>methodNotAllowed\<close>
  decision carrying that path's filter chain and stores it in the route cache when the
  snapshot has one.  It responds with 405 when that filter chain is absent or allows
  the request's real IP, and with 403 when the chain denies it.
\<close>

theorem ServeHTTP_method_not_allowed:
  assumes ctx: "ctx = context_New r"
    and miss: "getCacheItem (mux.rules m) ctx = None"
    and root: "muxRules_pass ext (mux.rules m) ctx"
    and hosts: "muxRules.rules (mux.rules m) = hs1 @ h # hs2"
    and before: "\<forall>x\<in>set hs1. \<not> match ext x ctx \<or>
      (muxRule_pass ext x ctx \<and> (\<forall>q\<in>set (paths x). \<not> matchPath ext q ctx))"
    and host: "match ext h ctx" "muxRule_pass ext h ctx"
    and paths: "paths h = ps1 @ p # ps2" "\<forall>q\<in>set ps1. \<not> matchPath ext q ctx"
    and path: "matchPath ext p ctx"
    and meth: "methods p \<noteq> []" "Method r \<notin> set (methods p)"
    and item: "ci = \<lparr>cacheItem.ipFilterChan = muxPath.ipFilterChain p, notFound = False,
                     methodNotAllowed = True, cacheItem.path = None, cached = True\<rparr>"
  shows "\<exists>m' ctx'. ServeHTTP ext m r = Return (m', ctx')
           \<and> cache (mux.rules m') =
               (case cache (mux.rules m) of None \<Rightarrow> None
                | Some c \<Rightarrow> Some (cache_put c (fingerprint ctx) ci))
           \<and> ((\<exists>c. cache (mux.rules m) = Some c \<and> 0 < capacity c)
                \<longrightarrow> getCacheItem (mux.rules m') ctx = Some ci)
           \<and> HTTPContext.StatusCode ctx' =
               (if (case muxPath.ipFilterChain p of
                      Some chain \<Rightarrow> IPFilters_Allow ext chain (RealIP r)
                    | None \<Rightarrow> True)
                then 405 else 403)"
proof -
  have nm: "\<not> matchMethod p ctx"
    using meth by (simp add: matchMethod_def StrInSlice_def ctx context_New_def)
  have "ServeHTTP_paths ext [p] ctx = MethodNotAllowed p"
    using path nm by simp
  then have walk: "ServeHTTP_hosts ext (muxRules.rules (mux.rules m)) ctx = MethodNotAllowed p"
    unfolding hosts using before host paths by (intro ServeHTTP_hosts_reaches) simp_all
  show ?thesis
    using miss root walk unfolding ctx
    by (cases "cache (mux.rules m)")
       (simp_all add: ServeHTTP_def Let_def putCacheItem_def item getCacheItem_def cache_get_put
          handleRequestWithCache_methodNotAllowed IPFilters_AllowHTTPContext_def context_New_def
          split: option.splits)
qed


theorem ServeHTTP_method_not_allowed_witness:
  "\<exists>m' ctx'.
     ServeHTTP sample_ext (sample_mux spec_methods) (sample_request ''a.com'' ''POST'' ''/api/v1'')
       = Return (m', ctx')
     \<and> getCacheItem (mux.rules m') (context_New (sample_request ''a.com'' ''POST'' ''/api/v1''))
       = Some \<lparr>cacheItem.ipFilterChan = Some \<lparr>filters = [filter_10]\<rparr>, notFound = False,
               methodNotAllowed = True, cacheItem.path = None, cached = True\<rparr>
     \<and> HTTPContext.StatusCode ctx' = 405"
proof -
  let ?r = "sample_request ''a.com'' ''POST'' ''/api/v1''"
  let ?h = "no_muxRule\<lparr>host := ''a.com'', paths := [path_get]\<rparr>"
  have "\<exists>m' ctx'. ServeHTTP sample_ext (sample_mux spec_methods) ?r = Return (m', ctx')
           \<and> cache (mux.rules m') =
               (case cache (mux.rules (sample_mux spec_methods)) of None \<Rightarrow> None
                | Some c \<Rightarrow> Some (cache_put c (fingerprint (context_New ?r))
                    \<lparr>cacheItem.ipFilterChan = muxPath.ipFilterChain path_get, notFound = False,
                     methodNotAllowed = True, cacheItem.path = None, cached = True\<rparr>))
           \<and> ((\<exists>c. cache (mux.rules (sample_mux spec_methods)) = Some c \<and> 0 < capacity c)
                \<longrightarrow> getCacheItem (mux.rules m') (context_New ?r) =
                  Some \<lparr>cacheItem.ipFilterChan = muxPath.ipFilterChain path_get, notFound = False,
                     methodNotAllowed = True, cacheItem.path = None, cached = True\<rparr>)
           \<and> HTTPContext.StatusCode ctx' =
               (if (case muxPath.ipFilterChain path_get of
                      Some chain \<Rightarrow> IPFilters_Allow sample_ext chain (RealIP ?r)
                    | None \<Rightarrow> True)
                then 405 else 403)"
  proof (rule ServeHTTP_method_not_allowed
           [where ?hs1.0 = "[]" and h = ?h and ?hs2.0 = "[]" and ?ps1.0 = "[]" and ?ps2.0 = "[]",
            OF refl _ _ _ _ _ _ _ _ _ _ _ refl])
    show "getCacheItem (mux.rules (sample_mux spec_methods)) (context_New ?r) = None"
      by (simp add: sample_mux_methods sample_rules_def getCacheItem_def cache_get_def)
    show "muxRules_pass sample_ext (mux.rules (sample_mux spec_methods)) (context_New ?r)"
      by (simp add: sample_mux_methods sample_rules_def muxRules_pass_def)
    show "muxRules.rules (mux.rules (sample_mux spec_methods)) = [] @ ?h # []"
      by (simp add: sample_mux_methods sample_rules_def)
    show "match sample_ext ?h (context_New ?r)"
      by (simp add: route_defs sample_defs)
    show "muxRule_pass sample_ext ?h (context_New ?r)"
      by (simp add: route_defs sample_defs)
    show "paths ?h = [] @ path_get # []"
      by (simp add: sample_defs)
    show "matchPath sample_ext path_get (context_New ?r)"
      by (simp add: route_defs sample_defs)
    show "methods path_get \<noteq> []" "Method ?r \<notin> set (methods path_get)"
      by (simp_all add: sample_defs sample_request_def)
  qed simp_all
  then obtain m' ctx' where
    "ServeHTTP sample_ext (sample_mux spec_methods) ?r = Return (m', ctx')"
    and "(\<exists>c. cache (mux.rules (sample_mux spec_methods)) = Some c \<and> 0 < capacity c)
         \<longrightarrow> getCacheItem (mux.rules m') (context_New ?r) =
               Some \<lparr>cacheItem.ipFilterChan = muxPath.ipFilterChain path_get, notFound = False,
                     methodNotAllowed = True, cacheItem.path = None, cached = True\<rparr>"
    and "HTTPContext.StatusCode ctx' =
               (if (case muxPath.ipFilterChain path_get of
                      Some chain \<Rightarrow> IPFilters_Allow sample_ext chain (RealIP ?r)
                    | None \<Rightarrow> True)
                then 405 else 403)"
    by blast
  then have "ServeHTTP sample_ext (sample_mux spec_methods) ?r = Return (m', ctx')
     \<and> getCacheItem (mux.rules m') (context_New ?r)
       = Some \<lparr>cacheItem.ipFilterChan = Some \<lparr>filters = [filter_10]\<rparr>, notFound = False,
               methodNotAllowed = True, cacheItem.path = None, cached = True\<rparr>
     \<and> HTTPContext.StatusCode ctx' = 405"
    by (simp add: sample_mux_methods sample_rules_def path_get_def no_muxPath_def
          sample_request_def IPFilters_Allow_def filter_10_Allow)
  then show ?thesis by blast
qed

text \<open>
  The claim as stated fails where the path's filter chain denies the real IP: the path
  of \<open>spec_methods\<close> matches a POST from 192.168.1.1, GET is its only method, the
  decision is cached, and the response is 403, not 405.
\<close>

theorem ServeHTTP_method_not_allowed_counterexample:
  "matchPath sample_ext path_get
     (context_New ((sample_request ''a.com'' ''POST'' ''/api/v1'')\<lparr>RealIP := ''192.168.1.1''\<rparr>))
   \<and> methods path_get = [''GET'']
   \<and> ServeHTTP sample_ext (sample_mux spec_methods)
        ((sample_request ''a.com'' ''POST'' ''/api/v1'')\<lparr>RealIP := ''192.168.1.1''\<rparr>)
      = Return
          (\<lparr>mux.rules =
               (sample_rules spec_methods [no_muxRule\<lparr>host := ''a.com'', paths := [path_get]\<rparr>])
                 \<lparr>cache := Some \<lparr>capacity = 10, entries =
                    [(''a.comPOST/api/v1'',
                      \<lparr>cacheItem.ipFilterChan = Some \<lparr>filters = [filter_10]\<rparr>,
                        notFound = False, methodNotAllowed = True, cacheItem.path = None,
                        cached = True\<rparr>)]\<rparr>\<rparr>,
             muxMapper = sample_mapper\<rparr>,
           \<lparr>Request = (sample_request ''a.com'' ''POST'' ''/api/v1'')\<lparr>RealIP := ''192.168.1.1''\<rparr>,
             HTTPContext.StatusCode = 403, Tags = [''ip 192.168.1.1 not allow'']\<rparr>)"
  by (simp add: sample_mux_methods ServeHTTP_def sample_rules_def getCacheItem_def cache_get_def
        context_New_def sample_request_def fingerprint_def Cat_def muxRules_pass_def
        no_muxRule_def match_def muxRule_pass_def path_get_def no_muxPath_def matchPath_def
        HasPrefix_def matchMethod_def StrInSlice_def putCacheItem_def cache_put_def
        handleRequestWithCache_def IPFilters_AllowHTTPContext_def IPFilters_Allow_def
        filter_10_Allow handleIPNotAllow_def AddTag_def SetStatusCode_def Let_def)



subsection \<open>A path with header rules\<close>

text \<open>
  Claim C1 at a request that reaches a path with a header rule and matches none of its
  header rules.  The first path of \<open>spec_headers\<close> has the header rule X-Version is v2,
  the request carries X-Version v1, and the second path matches the request as well.
  The claim has the first path not match and the walk go on to the second path, whose
  backend is B2.  \<open>ServeHTTP\<close> has no branch for the miss: it builds the item of the
  first path, caches it and handles the request with it, so the request is handled by
  B1, and a later request with X-Version v2 finds that entry in the cache.
\<close>

theorem ServeHTTP_header_miss_dispatched:
  "headers path_v2 \<noteq> []
   \<and> matchHeaders sample_ext path_v2
        (context_New ((sample_request ''a.com'' ''GET'' ''/api/v1'')
                        \<lparr>Header := [''X-Version'' \<mapsto> [''v1'']]\<rparr>)) = Return None
   \<and> matchPath sample_ext path_api
        (context_New ((sample_request ''a.com'' ''GET'' ''/api/v1'')
                        \<lparr>Header := [''X-Version'' \<mapsto> [''v1'']]\<rparr>))
   \<and> ServeHTTP sample_ext (sample_mux spec_headers)
        ((sample_request ''a.com'' ''GET'' ''/api/v1'')\<lparr>Header := [''X-Version'' \<mapsto> [''v1'']]\<rparr>)
      = Return
          (\<lparr>mux.rules =
               (sample_rules spec_headers
                  [no_muxRule\<lparr>host := ''a.com'', paths := [path_v2, path_api]\<rparr>])
                 \<lparr>cache := Some \<lparr>capacity = 10, entries =
                    [(''a.comGET/api/v1'',
                      \<lparr>cacheItem.ipFilterChan = None, notFound = False,
                        methodNotAllowed = False, cacheItem.path = Some path_v2,
                        cached = True\<rparr>)]\<rparr>\<rparr>,
             muxMapper = sample_mapper\<rparr>,
           \<lparr>Request = (sample_request ''a.com'' ''GET'' ''/api/v1'')
                         \<lparr>Header := [''X-Version'' \<mapsto> [''v1'']]\<rparr>,
             HTTPContext.StatusCode = 200, Tags = [''handled by B1'']\<rparr>)
   \<and> getCacheItem
         ((sample_rules spec_headers
             [no_muxRule\<lparr>host := ''a.com'', paths := [path_v2, path_api]\<rparr>])
            \<lparr>cache := Some \<lparr>capacity = 10, entries =
               [(''a.comGET/api/v1'',
                 \<lparr>cacheItem.ipFilterChan = None, notFound = False,
                   methodNotAllowed = False, cacheItem.path = Some path_v2,
                   cached = True\<rparr>)]\<rparr>\<rparr>)
         (context_New ((sample_request ''a.com'' ''GET'' ''/api/v1'')
                         \<lparr>Header := [''X-Version'' \<mapsto> [''v2'']]\<rparr>))
       = Some \<lparr>cacheItem.ipFilterChan = None, notFound = False,
               methodNotAllowed = False, cacheItem.path = Some path_v2, cached = True\<rparr>"
  by (simp add: sample_mux_headers route_defs sample_defs)

text \<open>
  Claim C3.  For every request resolved through a header-rule hit (the walk reaches a
  path whose \<open>matchHeaders\<close> returns an item), the request is handled with that item
  and the item is not written to the route cache: the cache is what it was, and it
  holds no entry for the request's fingerprint.
\<close>

theorem ServeHTTP_header_match_not_cached:
  assumes ctx: "ctx = context_New r"
    and miss: "getCacheItem (mux.rules m) ctx = None"
    and root: "muxRules_pass ext (mux.rules m) ctx"
    and hosts: "muxRules.rules (mux.rules m) = hs1 @ h # hs2"
    and before: "\<forall>x\<in>set hs1. \<not> match ext x ctx \<or>
      (muxRule_pass ext x ctx \<and> (\<forall>q\<in>set (paths x). \<not> matchPath ext q ctx))"
    and host: "match ext h ctx" "muxRule_pass ext h ctx"
    and paths: "paths h = ps1 @ p # ps2" "\<forall>q\<in>set ps1. \<not> matchPath ext q ctx"
    and path: "matchPath ext p ctx" "matchMethod p ctx" "muxPath_pass ext p ctx"
    and hit: "matchHeaders ext p ctx = Return (Some ci)"
  shows "\<exists>m' ctx'. ServeHTTP ext m r = Return (m', ctx')
           \<and> ctx' = handleRequestWithCache ext m (mux.rules m) ctx ci
           \<and> cache (mux.rules m') = cache (mux.rules m)
           \<and> getCacheItem (mux.rules m') ctx = None"
proof -
  have "ServeHTTP_paths ext [p] ctx = HeaderMatched ci"
    using path hit by simp
  then have walk: "ServeHTTP_hosts ext (muxRules.rules (mux.rules m)) ctx = HeaderMatched ci"
    unfolding hosts using before host paths by (intro ServeHTTP_hosts_reaches) simp_all
  have "ServeHTTP ext m r = Return (m, handleRequestWithCache ext m (mux.rules m) ctx ci)"
    by (simp add: ServeHTTP_after_walk [OF ctx miss root] walk)
  then show ?thesis using miss by simp
qed

theorem ServeHTTP_header_match_not_cached_witness:
  "\<exists>m' ctx'.
     ServeHTTP sample_ext (sample_mux spec_headers)
       ((sample_request ''a.com'' ''GET'' ''/api/v1'')\<lparr>Header := [''X-Version'' \<mapsto> [''v2'']]\<rparr>)
       = Return (m', ctx')
     \<and> Tags ctx' = [''handled by B1'']
     \<and> cache (mux.rules m') = Some \<lparr>capacity = 10, entries = []\<rparr>
     \<and> getCacheItem (mux.rules m')
          (context_New ((sample_request ''a.com'' ''GET'' ''/api/v1'')
                          \<lparr>Header := [''X-Version'' \<mapsto> [''v2'']]\<rparr>)) = None"
proof -
  let ?r = "(sample_request ''a.com'' ''GET'' ''/api/v1'')\<lparr>Header := [''X-Version'' \<mapsto> [''v2'']]\<rparr>"
  let ?h = "no_muxRule\<lparr>host := ''a.com'', paths := [path_v2, path_api]\<rparr>"
  let ?ci = "\<lparr>cacheItem.ipFilterChan = muxPath.ipFilterChain path_v2, notFound = False,
              methodNotAllowed = False, cacheItem.path = Some path_v2, cached = False\<rparr>"
  have "\<exists>m' ctx'. ServeHTTP sample_ext (sample_mux spec_headers) ?r = Return (m', ctx')
           \<and> ctx' = handleRequestWithCache sample_ext (sample_mux spec_headers)
                        (mux.rules (sample_mux spec_headers)) (context_New ?r) ?ci
           \<and> cache (mux.rules m') = cache (mux.rules (sample_mux spec_headers))
           \<and> getCacheItem (mux.rules m') (context_New ?r) = None"
  proof (rule ServeHTTP_header_match_not_cached
           [where ?hs1.0 = "[]" and h = ?h and ?hs2.0 = "[]" and ?ps1.0 = "[]"
              and ?ps2.0 = "[path_api]" and p = path_v2, OF refl])
    show "getCacheItem (mux.rules (sample_mux spec_headers)) (context_New ?r) = None"
      by (simp add: sample_mux_headers getCacheItem_def cache_get_def)
    show "muxRules_pass sample_ext (mux.rules (sample_mux spec_headers)) (context_New ?r)"
      by (simp add: sample_mux_headers muxRules_pass_def)
    show "muxRules.rules (mux.rules (sample_mux spec_headers)) = [] @ ?h # []"
      by (simp add: sample_mux_headers)
    show "match sample_ext ?h (context_New ?r)"
      by (simp add: route_defs sample_defs)
    show "muxRule_pass sample_ext ?h (context_New ?r)"
      by (simp add: route_defs sample_defs)
    show "paths ?h = [] @ path_v2 # [path_api]"
      by (simp add: sample_defs)
    show "matchPath sample_ext path_v2 (context_New ?r)"
      by (simp add: route_defs sample_defs)
    show "matchMethod path_v2 (context_New ?r)"
      by (simp add: route_defs sample_defs)
    show "muxPath_pass sample_ext path_v2 (context_New ?r)"
      by (simp add: route_defs sample_defs)
    show "matchHeaders sample_ext path_v2 (context_New ?r) = Return (Some ?ci)"
      by (simp add: route_defs sample_defs)
  qed simp_all
  then obtain m' ctx' where
    "ServeHTTP sample_ext (sample_mux spec_headers) ?r = Return (m', ctx')"
    and "ctx' = handleRequestWithCache sample_ext (sample_mux spec_headers)
                        (mux.rules (sample_mux spec_headers)) (context_New ?r) ?ci"
    and "cache (mux.rules m') = cache (mux.rules (sample_mux spec_headers))"
    and "getCacheItem (mux.rules m') (context_New ?r) = None"
    by blast
  moreover have "handleRequestWithCache sample_ext (sample_mux spec_headers)
                   (mux.rules (sample_mux spec_headers)) (context_New ?r) ?ci
                 = \<lparr>Request = ?r, HTTPContext.StatusCode = 200, Tags = [''handled by B1'']\<rparr>"
    by (simp add: sample_mux_headers route_defs sample_defs)
  moreover have "cache (mux.rules (sample_mux spec_headers)) = Some \<lparr>capacity = 10, entries = []\<rparr>"
    by (simp add: sample_mux_headers)
  ultimately have "ServeHTTP sample_ext (sample_mux spec_headers) ?r = Return (m', ctx')
     \<and> Tags ctx' = [''handled by B1'']
     \<and> cache (mux.rules m') = Some \<lparr>capacity = 10, entries = []\<rparr>
     \<and> getCacheItem (mux.rules m') (context_New ?r) = None"
    by simp
  then show ?thesis by blast
qed

subsection \<open>A matching host without a matching path\<close>

text \<open>
  Claim C2, as amended.  If a rule's host spec matches the request, the rule's own
  filter passes and none of the rule's paths matches, the dispatcher goes on with the
  later rules of the list: it answers, and leaves the cache, as the same mux without
  that rule does.  It falls through to the \<open>notFound\<close> decision, 404 unless the root
  filter chain denies the real IP, when no other rule of the list ends the walk either.
\<close>

theorem ServeHTTP_host_without_path:
  assumes ctx: "ctx = context_New r"
    and hosts: "muxRules.rules (mux.rules m) = hs1 @ h # hs2"
    and host: "match ext h ctx" "muxRule_pass ext h ctx"
    and nopath: "\<forall>q\<in>set (paths h). \<not> matchPath ext q ctx"
    and without: "m0 = m\<lparr>mux.rules := (mux.rules m)\<lparr>muxRules.rules := hs1 @ hs2\<rparr>\<rparr>"
  shows "map_exec (\<lambda>(m', ctx'). (cache (mux.rules m'), ctx')) (ServeHTTP ext m r)
           = map_exec (\<lambda>(m', ctx'). (cache (mux.rules m'), ctx')) (ServeHTTP ext m0 r)
         \<and> (getCacheItem (mux.rules m) ctx = None \<and> muxRules_pass ext (mux.rules m) ctx
            \<and> (\<forall>x\<in>set (hs1 @ hs2). \<not> match ext x ctx \<or>
                  (muxRule_pass ext x ctx \<and> (\<forall>q\<in>set (paths x). \<not> matchPath ext q ctx)))
            \<longrightarrow> (\<exists>m' ctx'. ServeHTTP ext m r = Return (m', ctx')
                   \<and> HTTPContext.StatusCode ctx' =
                       (if (case muxRules.ipFilterChan (mux.rules m) of
                              Some chain \<Rightarrow> IPFilters_Allow ext chain (RealIP r)
                            | None \<Rightarrow> True)
                        then 404 else 403)))"
proof (intro conjI impI)
  have walk: "ServeHTTP_hosts ext (muxRules.rules (mux.rules m)) ctx
                = ServeHTTP_hosts ext (muxRules.rules (mux.rules m0)) ctx"
    unfolding hosts without using host nopath by (simp add: ServeHTTP_hosts_drop)
  have same: "getCacheItem (mux.rules m0) = getCacheItem (mux.rules m)"
    "muxRules_pass ext (mux.rules m0) = muxRules_pass ext (mux.rules m)"
    "muxRules.ipFilterChan (mux.rules m0) = muxRules.ipFilterChan (mux.rules m)"
    "cache (mux.rules m0) = cache (mux.rules m)"
    "\<And>x. cache (fst (putCacheItem (mux.rules m0) ctx x)) = cache (fst (putCacheItem (mux.rules m) ctx x))"
    "\<And>x c. handleRequestWithCache ext m0 (mux.rules m0) c x = handleRequestWithCache ext m (mux.rules m) c x"
    unfolding without
    by (auto simp add: getCacheItem_def muxRules_pass_def putCacheItem_def Let_def fun_eq_iff
          intro: handleRequestWithCache_cong split: option.splits)
  show "map_exec (\<lambda>(m', ctx'). (cache (mux.rules m'), ctx')) (ServeHTTP ext m r)
           = map_exec (\<lambda>(m', ctx'). (cache (mux.rules m'), ctx')) (ServeHTTP ext m0 r)"
  proof (cases "getCacheItem (mux.rules m) ctx")
    case (Some ci)
    then show ?thesis
      using same by (simp add: ServeHTTP_def Let_def ctx [symmetric])
  next
    case None
    show ?thesis
    proof (cases "muxRules_pass ext (mux.rules m) ctx")
      case False
      then show ?thesis
        using None same by (simp add: ServeHTTP_def Let_def ctx [symmetric])
    next
      case True
      have a: "getCacheItem (mux.rules m0) ctx = None" "muxRules_pass ext (mux.rules m0) ctx"
        using None True same by simp_all
      show ?thesis
        unfolding ServeHTTP_after_walk [OF ctx None True] ServeHTTP_after_walk [OF ctx a] walk
        by (simp add: same Let_def split: walk.splits)
    qed
  qed
next
  assume a: "getCacheItem (mux.rules m) ctx = None \<and> muxRules_pass ext (mux.rules m) ctx
            \<and> (\<forall>x\<in>set (hs1 @ hs2). \<not> match ext x ctx \<or>
                  (muxRule_pass ext x ctx \<and> (\<forall>q\<in>set (paths x). \<not> matchPath ext q ctx)))"
  then have "ServeHTTP_hosts ext (hs1 @ hs2) ctx = Exhausted"
    by (intro ServeHTTP_hosts_Exhausted) simp
  then have walk: "ServeHTTP_hosts ext (muxRules.rules (mux.rules m)) ctx = Exhausted"
    unfolding hosts using host nopath by (simp add: ServeHTTP_hosts_drop)
  from a have miss: "getCacheItem (mux.rules m) ctx = None"
    and root: "muxRules_pass ext (mux.rules m) ctx" by simp_all
  have real: "RealIP (Request ctx) = RealIP r"
    by (simp add: ctx context_New_def)
  have "ServeHTTP ext m r =
          Return (m\<lparr>mux.rules := fst (putCacheItem (mux.rules m) ctx
                     \<lparr>cacheItem.ipFilterChan = muxRules.ipFilterChan (mux.rules m),
                      notFound = True, methodNotAllowed = False, cacheItem.path = None,
                      cached = False\<rparr>)\<rparr>,
                  handleRequestWithCache ext m (mux.rules m) ctx
                     \<lparr>cacheItem.ipFilterChan = muxRules.ipFilterChan (mux.rules m),
                      notFound = True, methodNotAllowed = False, cacheItem.path = None,
                      cached = False\<rparr>)"
    by (simp add: ServeHTTP_after_walk [OF ctx miss root] walk Let_def)
  then show "\<exists>m' ctx'. ServeHTTP ext m r = Return (m', ctx')
                   \<and> HTTPContext.StatusCode ctx' =
                       (if (case muxRules.ipFilterChan (mux.rules m) of
                              Some chain \<Rightarrow> IPFilters_Allow ext chain (RealIP r)
                            | None \<Rightarrow> True)
                        then 404 else 403)"
    by (simp add: handleRequestWithCache_notFound IPFilters_AllowHTTPContext_def real
          cong: option.case_cong)
qed

theorem ServeHTTP_host_without_path_witness:
  "map_exec (\<lambda>(m', ctx'). (cache (mux.rules m'), ctx'))
     (ServeHTTP sample_ext (sample_mux spec_hosts) (sample_request ''a.com'' ''GET'' ''/b''))
   = Return (Some \<lparr>capacity = 10, entries =
                    [(''a.comGET/b'',
                      \<lparr>cacheItem.ipFilterChan = None, notFound = False,
                        methodNotAllowed = False, cacheItem.path = Some path_b,
                        cached = True\<rparr>)]\<rparr>,
             \<lparr>Request = sample_request ''a.com'' ''GET'' ''/b'',
               HTTPContext.StatusCode = 200, Tags = [''handled by B2'']\<rparr>)
   \<and> (\<exists>m' ctx'. ServeHTTP sample_ext (sample_mux spec_hosts) (sample_request ''a.com'' ''GET'' ''/c'')
                    = Return (m', ctx')
                  \<and> HTTPContext.StatusCode ctx' = 404)"
proof -
  let ?h = "no_muxRule\<lparr>host := ''a.com'', paths := [path_a]\<rparr>"
  let ?any = "no_muxRule\<lparr>paths := [path_b]\<rparr>"
  let ?m0 = "(sample_mux spec_hosts)
               \<lparr>mux.rules := (mux.rules (sample_mux spec_hosts))\<lparr>muxRules.rules := [] @ [?any]\<rparr>\<rparr>"
  note inst = ServeHTTP_host_without_path
               [where ext = sample_ext and m = "sample_mux spec_hosts" and ?hs1.0 = "[]"
                  and h = ?h and ?hs2.0 = "[?any]" and ?m0.0 = ?m0, OF refl _ _ _ _ refl]
  let ?b = "sample_request ''a.com'' ''GET'' ''/b''"
  have "map_exec (\<lambda>(m', ctx'). (cache (mux.rules m'), ctx'))
          (ServeHTTP sample_ext (sample_mux spec_hosts) ?b)
        = map_exec (\<lambda>(m', ctx'). (cache (mux.rules m'), ctx')) (ServeHTTP sample_ext ?m0 ?b)"
    using inst [where r = ?b]
    by (simp add: sample_mux_hosts route_defs sample_defs)
  then have first: "map_exec (\<lambda>(m', ctx'). (cache (mux.rules m'), ctx'))
          (ServeHTTP sample_ext (sample_mux spec_hosts) ?b)
        = Return (Some \<lparr>capacity = 10, entries =
                    [(''a.comGET/b'',
                      \<lparr>cacheItem.ipFilterChan = None, notFound = False,
                        methodNotAllowed = False, cacheItem.path = Some path_b,
                        cached = True\<rparr>)]\<rparr>,
             \<lparr>Request = ?b, HTTPContext.StatusCode = 200, Tags = [''handled by B2'']\<rparr>)"
    by (simp add: sample_mux_hosts route_defs sample_defs)
  let ?c = "sample_request ''a.com'' ''GET'' ''/c''"
  have second: "\<exists>m' ctx'. ServeHTTP sample_ext (sample_mux spec_hosts) ?c = Return (m', ctx')
                  \<and> HTTPContext.StatusCode ctx' = 404"
    using inst [where r = ?c]
    by (simp add: sample_mux_hosts route_defs sample_defs)
  from first second show ?thesis by blast
qed

text \<open>
  The claim as stated fails: the first rule of \<open>spec_hosts\<close> matches the host a.com and
  its only path does not match /b; the request is not answered with 404 but handled by
  B2, the backend of the second rule's path.
\<close>

theorem ServeHTTP_host_without_path_counterexample:
  "match sample_ext (no_muxRule\<lparr>host := ''a.com'', paths := [path_a]\<rparr>)
     (context_New (sample_request ''a.com'' ''GET'' ''/b''))
   \<and> \<not> matchPath sample_ext path_a (context_New (sample_request ''a.com'' ''GET'' ''/b''))
   \<and> ServeHTTP sample_ext (sample_mux spec_hosts) (sample_request ''a.com'' ''GET'' ''/b'')
      = Return
          (\<lparr>mux.rules =
               (sample_rules spec_hosts
                  [no_muxRule\<lparr>host := ''a.com'', paths := [path_a]\<rparr>,
                   no_muxRule\<lparr>paths := [path_b]\<rparr>])
                 \<lparr>cache := Some \<lparr>capacity = 10, entries =
                    [(''a.comGET/b'',
                      \<lparr>cacheItem.ipFilterChan = None, notFound = False,
                        methodNotAllowed = False, cacheItem.path = Some path_b,
                        cached = True\<rparr>)]\<rparr>\<rparr>,
             muxMapper = sample_mapper\<rparr>,
           \<lparr>Request = sample_request ''a.com'' ''GET'' ''/b'',
             HTTPContext.StatusCode = 200, Tags = [''handled by B2'']\<rparr>)"
  by (simp add: sample_mux_hosts route_defs sample_defs)

subsection \<open>The route cache's key\<close>

text \<open>
  Claim C10.  The fingerprint is the bare concatenation of host, method and path, so it
  is not injective: there are two distinct tuples (host, method, path) with equal
  fingerprints, and whenever two contexts have equal fingerprints, a decision that
  \<open>putCacheItem\<close> stores for one of them is what \<open>getCacheItem\<close> returns for the other
  (the snapshot has a cache, of a capacity above zero).
\<close>

theorem fingerprint_not_injective:
  "(\<exists>r1 r2. (Request.Host r1, Method r1, Request.Path r1)
              \<noteq> (Request.Host r2, Method r2, Request.Path r2)
           \<and> fingerprint (context_New r1) = fingerprint (context_New r2))
   \<and> (fingerprint ctx1 = fingerprint ctx2 \<and> cache mr = Some c \<and> 0 < capacity c \<and> \<not> cached ci
      \<longrightarrow> getCacheItem (fst (putCacheItem mr ctx1 ci)) ctx2 = Some (ci\<lparr>cached := True\<rparr>))"
proof (intro conjI impI)
  let ?r1 = "sample_request ''a.com'' ''GET'' ''/a''"
  let ?r2 = "sample_request ''a.comG'' ''ET'' ''/a''"
  have "(Request.Host ?r1, Method ?r1, Request.Path ?r1)
              \<noteq> (Request.Host ?r2, Method ?r2, Request.Path ?r2)
           \<and> fingerprint (context_New ?r1) = fingerprint (context_New ?r2)"
    by (simp add: sample_request_def fingerprint_def context_New_def Cat_def)
  then show "\<exists>r1 r2. (Request.Host r1, Method r1, Request.Path r1)
              \<noteq> (Request.Host r2, Method r2, Request.Path r2)
           \<and> fingerprint (context_New r1) = fingerprint (context_New r2)"
    by blast
next
  assume "fingerprint ctx1 = fingerprint ctx2 \<and> cache mr = Some c \<and> 0 < capacity c \<and> \<not> cached ci"
  then show "getCacheItem (fst (putCacheItem mr ctx1 ci)) ctx2 = Some (ci\<lparr>cached := True\<rparr>)"
    by (simp add: getCacheItem_def putCacheItem_def Let_def cache_get_put)
qed

theorem fingerprint_not_injective_witness:
  "(Request.Host (sample_request ''a.com'' ''GET'' ''/a''), Method (sample_request ''a.com'' ''GET'' ''/a''),
    Request.Path (sample_request ''a.com'' ''GET'' ''/a''))
     \<noteq> (Request.Host (sample_request ''a.comG'' ''ET'' ''/a''),
        Method (sample_request ''a.comG'' ''ET'' ''/a''),
        Request.Path (sample_request ''a.comG'' ''ET'' ''/a''))
   \<and> fingerprint (context_New (sample_request ''a.com'' ''GET'' ''/a'')) = ''a.comGET/a''
   \<and> fingerprint (context_New (sample_request ''a.comG'' ''ET'' ''/a'')) = ''a.comGET/a''
   \<and> getCacheItem
         (fst (putCacheItem (mux.rules (sample_mux spec_hosts))
                 (context_New (sample_request ''a.com'' ''GET'' ''/a''))
                 \<lparr>cacheItem.ipFilterChan = None, notFound = False, methodNotAllowed = False,
                   cacheItem.path = Some path_a, cached = False\<rparr>))
         (context_New (sample_request ''a.comG'' ''ET'' ''/a''))
       = Some \<lparr>cacheItem.ipFilterChan = None, notFound = False, methodNotAllowed = False,
               cacheItem.path = Some path_a, cached = True\<rparr>"
proof -
  let ?r1 = "sample_request ''a.com'' ''GET'' ''/a''"
  let ?r2 = "sample_request ''a.comG'' ''ET'' ''/a''"
  have f: "fingerprint (context_New ?r1) = ''a.comGET/a''"
    "fingerprint (context_New ?r2) = ''a.comGET/a''"
    by (simp_all add: sample_request_def fingerprint_def context_New_def Cat_def)
  have c: "cache (mux.rules (sample_mux spec_hosts)) = Some \<lparr>capacity = 10, entries = []\<rparr>"
    by (simp add: sample_mux_hosts)
  have "getCacheItem
         (fst (putCacheItem (mux.rules (sample_mux spec_hosts)) (context_New ?r1)
                 \<lparr>cacheItem.ipFilterChan = None, notFound = False, methodNotAllowed = False,
                   cacheItem.path = Some path_a, cached = False\<rparr>))
         (context_New ?r2)
       = Some (\<lparr>cacheItem.ipFilterChan = None, notFound = False, methodNotAllowed = False,
               cacheItem.path = Some path_a, cached = False\<rparr>\<lparr>cached := True\<rparr>)"
    using fingerprint_not_injective
            [of "context_New ?r1" "context_New ?r2" "mux.rules (sample_mux spec_hosts)"
                "\<lparr>capacity = 10, entries = []\<rparr>"] f c
    by simp
  then show ?thesis
    using f by (simp add: sample_request_def)
qed

text \<open>The same through the dispatcher.\<close>

lemma ServeHTTP_collision:
  "ServeHTTP sample_ext (sample_mux spec_hosts) (sample_request ''a.comG'' ''ET'' ''/a'')
     = Return (m, ctx) \<Longrightarrow> HTTPContext.StatusCode ctx = 404"
  "ServeHTTP sample_ext (sample_mux spec_hosts) (sample_request ''a.com'' ''GET'' ''/a'')
     = Return (m, ctx) \<Longrightarrow>
   ServeHTTP sample_ext m (sample_request ''a.comG'' ''ET'' ''/a'') = Return (m', ctx') \<Longrightarrow>
   Tags ctx' = [''handled by B1'']"
  by (auto simp add: sample_mux_hosts route_defs sample_defs)

subsection \<open>X-Forwarded-For\<close>

lemma strings_Contains_sublist: "strings_Contains s substr \<longleftrightarrow> sublist substr s"
  by (induction s) (auto simp add: sublist_Cons_right)

lemma appendXForwardedFor_cases:
  "Get (Header (Request ctx)) KeyXForwardedFor \<noteq> [] \<Longrightarrow>
   strings_Contains (Get (Header (Request ctx)) KeyXForwardedFor) (RealIP (Request ctx)) \<Longrightarrow>
   appendXForwardedFor ctx = ctx"
  "Get (Header (Request ctx)) KeyXForwardedFor \<noteq> [] \<Longrightarrow>
   \<not> strings_Contains (Get (Header (Request ctx)) KeyXForwardedFor) (RealIP (Request ctx)) \<Longrightarrow>
   Get (Header (Request (appendXForwardedFor ctx))) KeyXForwardedFor
     = Get (Header (Request ctx)) KeyXForwardedFor @ '','' @ RealIP (Request ctx)"
  "Header (Request ctx) KeyXForwardedFor = None \<or> Header (Request ctx) KeyXForwardedFor = Some [] \<Longrightarrow>
   Get (Header (Request (appendXForwardedFor ctx))) KeyXForwardedFor = RealIP (Request ctx)"
  by (auto simp add: appendXForwardedFor_def Get_def Add_def Set_def SetHeader_def Let_def Cat_def)

text \<open>
  Claim C8 at a request that carries an X-Forwarded-For header with an empty value
  and whose real IP is 10.0.0.1.  The header's value is empty, so the claim has it set
  to the real IP; \<open>appendXForwardedFor\<close> adds the address as a second value of the
  header instead, and the header's value, the first of the list, stays empty.  A
  second call adds the address once more.
\<close>

theorem appendXForwardedFor_empty_value:
  "Get (Header (Request (context_New
          ((sample_request ''a.com'' ''GET'' ''/'')\<lparr>Header := [KeyXForwardedFor \<mapsto> [[]]]\<rparr>))))
       KeyXForwardedFor = []
   \<and> RealIP (Request (context_New
          ((sample_request ''a.com'' ''GET'' ''/'')\<lparr>Header := [KeyXForwardedFor \<mapsto> [[]]]\<rparr>)))
       = ''10.0.0.1''
   \<and> Header (Request (appendXForwardedFor (context_New
          ((sample_request ''a.com'' ''GET'' ''/'')\<lparr>Header := [KeyXForwardedFor \<mapsto> [[]]]\<rparr>))))
       KeyXForwardedFor = Some [[], ''10.0.0.1'']
   \<and> Get (Header (Request (appendXForwardedFor (context_New
          ((sample_request ''a.com'' ''GET'' ''/'')\<lparr>Header := [KeyXForwardedFor \<mapsto> [[]]]\<rparr>)))))
       KeyXForwardedFor = []
   \<and> Header (Request (appendXForwardedFor (appendXForwardedFor (context_New
          ((sample_request ''a.com'' ''GET'' ''/'')\<lparr>Header := [KeyXForwardedFor \<mapsto> [[]]]\<rparr>)))))
       KeyXForwardedFor = Some [[], ''10.0.0.1'', ''10.0.0.1'']"
  by (simp add: appendXForwardedFor_def Get_def Add_def Set_def SetHeader_def context_New_def
        sample_request_def KeyXForwardedFor_def Let_def)

subsection \<open>Expressions that do not compile\<close>

lemma newMuxPath_compile_failure:
  assumes "PathRegexp ps \<noteq> []" "Compile ext (PathRegexp ps) = Inl err"
    and "newMuxPath ext parent ps = Return (mp, logged)"
  shows "pathRE mp = None" "logged = [compile_failed (PathRegexp ps) err]"
    "muxPath.path mp = Path.Path ps" "pathPrefix mp = PathPrefix ps"
  using assms by (auto simp add: newMuxPath_def Let_def split: exec.splits)

lemma newMuxRule_compile_failure:
  assumes "HostRegexp rs \<noteq> []" "Compile ext (HostRegexp rs) = Inl err"
    and "newMuxRule ext parent rs ps = Return (mr, logged)"
  shows "hostRE mr = None" "logged = [compile_failed (HostRegexp rs) err]"
    "host mr = Rule.Host rs" "paths mr = ps"
  using assms by (auto simp add: newMuxRule_def Let_def split: exec.splits)

lemma matchPath_compile_failure:
  assumes "PathRegexp ps \<noteq> []" "Compile ext (PathRegexp ps) = Inl err"
    and "Path.Path ps = []" "PathPrefix ps = []"
    and "newMuxPath ext parent ps = Return (mp, logged)"
  shows "matchPath ext mp ctx"
  using newMuxPath_compile_failure [OF assms(1,2,5)] assms(3,4)
  by (simp add: matchPath_def)

lemma match_compile_failure:
  assumes "HostRegexp rs \<noteq> []" "Compile ext (HostRegexp rs) = Inl err"
    and "Rule.Host rs = []"
    and "newMuxRule ext parent rs ps = Return (mr, logged)"
  shows "match ext mr ctx"
  using newMuxRule_compile_failure [OF assms(1,2,4)] assms(3)
  by (simp add: match_def)

lemma sample_mux_broken:
  "reloadRules sample_ext spec_broken =
     Return (sample_rules spec_broken
               [no_muxRule\<lparr>hostRegexp := ''('', paths := [path_broken]\<rparr>,
                no_muxRule\<lparr>host := ''a.com'', paths := [path_a2]\<rparr>],
             [''BUG: compile ( failed: error parsing regexp: missing closing )'',
              ''BUG: compile ( failed: error parsing regexp: missing closing )''])"
  "sample_mux spec_broken =
     \<lparr>mux.rules = sample_rules spec_broken
        [no_muxRule\<lparr>hostRegexp := ''('', paths := [path_broken]\<rparr>,
         no_muxRule\<lparr>host := ''a.com'', paths := [path_a2]\<rparr>],
      muxMapper = sample_mapper\<rparr>"
  by (simp_all add: sample_mux_def spec_broken_def sample_spec_def any_rule_def any_path_def
        build_defs newMux_def sample_rules_def no_muxRule_def no_muxPath_def path_broken_def
        path_a2_def compile_failed_def)

lemma sample_XForwardedFor_broken [simp]: "\<not> XForwardedFor spec_broken"
  by (simp add: spec_broken_def sample_spec_def)

text \<open>
  Claim C6 at a spec whose only matchers are expressions that do not compile.  Reload
  logs both failures and leaves both compiled matchers absent, as the claim says.  The
  claim has the rule and the path match no request and leave the other rules
  unaffected; \<open>match\<close> and \<open>matchPath\<close> test the compiled pointer for match-any, so the
  rule matches every host and the path every request path: a GET of /a on a.com,
  which the second rule routes to B2, is handled by B1 and cached so.
\<close>

theorem compile_failure_matches_every_request:
  "reloadRules sample_ext spec_broken =
     Return (sample_rules spec_broken
               [no_muxRule\<lparr>hostRegexp := ''('', paths := [path_broken]\<rparr>,
                no_muxRule\<lparr>host := ''a.com'', paths := [path_a2]\<rparr>],
             [''BUG: compile ( failed: error parsing regexp: missing closing )'',
              ''BUG: compile ( failed: error parsing regexp: missing closing )''])
   \<and> hostRE (no_muxRule\<lparr>hostRegexp := ''('', paths := [path_broken]\<rparr>) = None
   \<and> pathRE path_broken = None
   \<and> match sample_ext (no_muxRule\<lparr>hostRegexp := ''('', paths := [path_broken]\<rparr>)
         (context_New (sample_request ''a.com'' ''GET'' ''/a''))
   \<and> matchPath sample_ext path_broken (context_New (sample_request ''a.com'' ''GET'' ''/a''))
   \<and> ServeHTTP sample_ext (sample_mux spec_broken) (sample_request ''a.com'' ''GET'' ''/a'')
      = Return
          (\<lparr>mux.rules =
               (sample_rules spec_broken
                  [no_muxRule\<lparr>hostRegexp := ''('', paths := [path_broken]\<rparr>,
                   no_muxRule\<lparr>host := ''a.com'', paths := [path_a2]\<rparr>])
                 \<lparr>cache := Some \<lparr>capacity = 10, entries =
                    [(''a.comGET/a'',
                      \<lparr>cacheItem.ipFilterChan = None, notFound = False,
                        methodNotAllowed = False, cacheItem.path = Some path_broken,
                        cached = True\<rparr>)]\<rparr>\<rparr>,
             muxMapper = sample_mapper\<rparr>,
           \<lparr>Request = sample_request ''a.com'' ''GET'' ''/a'',
             HTTPContext.StatusCode = 200, Tags = [''handled by B1'']\<rparr>)"
  by (simp add: sample_mux_broken route_defs sample_defs path_broken_def path_a2_def)

subsection \<open>The redirector\<close>

text \<open>
  Claim C9.  Initialization normalizes the spec: a match part that is not exactly one
  of uri, full and path (case-sensitively; URI, uRi and the empty string are not)
  becomes uri, and a status code outside 301, 302, 303, 304, 307 and 308 becomes 301;
  valid values, the expression and the replacement are kept.  The specs of
  \<^verbatim>\<open>TestRedirector\<close> come out as the test expects.
\<close>

theorem Init_normalizes:
  "MatchPart (Init s) =
     (if MatchPart s = ''uri'' \<or> MatchPart s = ''full'' \<or> MatchPart s = ''path''
      then MatchPart s else ''uri'')
   \<and> redirector_Spec.StatusCode (Init s) =
     (if redirector_Spec.StatusCode s \<in> {301, 302, 303, 304, 307, 308}
      then redirector_Spec.StatusCode s else 301)
   \<and> Match (Init s) = Match s \<and> Replacement (Init s) = Replacement s
   \<and> Init (getSpec ''(.*)'' ''all'' ''$1'' 800) = getSpec ''(.*)'' ''uri'' ''$1'' 301
   \<and> Init (getSpec ''(.*)'' ''other'' ''$1'' 200) = getSpec ''(.*)'' ''uri'' ''$1'' 301
   \<and> Init (getSpec ''(.*)'' ''URI'' ''$1'' 200) = getSpec ''(.*)'' ''uri'' ''$1'' 301
   \<and> Init (getSpec ''(.*)'' ''uRi'' ''$1'' 200) = getSpec ''(.*)'' ''uri'' ''$1'' 301
   \<and> Init (getSpec ''(.*)'' ''urI'' ''$1'' 200) = getSpec ''(.*)'' ''uri'' ''$1'' 301
   \<and> Init (getSpec ''(.*)'' [] ''$1'' 0) = getSpec ''(.*)'' ''uri'' ''$1'' 301
   \<and> Init (getSpec ''(.*)'' ''path'' ''$1'' 303) = getSpec ''(.*)'' ''path'' ''$1'' 303"
  by (simp add: Init_def getSpec_def Let_def)

end
